theory Spec2Isabelle
  imports Main "HOL-Library.AList"
begin

chapter \<open>The Dytor relay servers\<close>

text \<open>
  A shallow embedding of the three servers of the repository: the global-mode relay
  (\<^verbatim>\<open>server/websocket-server.js\<close>), the room server (\<^verbatim>\<open>server/room-server.js\<close>) and the
  room-code loop of the authentication server (\<^verbatim>\<open>server/auth-server.js\<close>).

  Conventions of the embedding.
  \<^item> A WebSocket object is a \<open>sock\<close>, a natural number standing for the object's identity.
  \<^item> \<^verbatim>\<open>ws.readyState === WebSocket.OPEN\<close> is read from a predicate \<open>opn\<close> that every handler
    receives: the transport state belongs to the environment, and one synchronous handler
    run sees one snapshot of it.
  \<^item> Every \<^verbatim>\<open>ws.send(JSON.stringify(m))\<close> appends \<open>(ws, m)\<close> to a log of send calls, in call
    order; serialisation and the transport library are taken to succeed.
  \<^item> \<^verbatim>\<open>Date.now()\<close>, \<^verbatim>\<open>crypto.randomUUID()\<close> and \<^verbatim>\<open>crypto.randomBytes\<close> are inputs of the
    handler that calls them; a handler run reads the clock once.
  \<^item> A JavaScript \<^verbatim>\<open>Map\<close> or \<^verbatim>\<open>Set\<close> whose iteration order the code relies on is an
    association list or a list in insertion order (\<open>AList.update\<close> keeps the position of a
    key that is already present, as \<^verbatim>\<open>Map.prototype.set\<close> does).
  \<^item> Frames are decoded against the envelope of the protocol: string fields are
    \<open>string option\<close> (\<open>None\<close> for a missing or \<^verbatim>\<open>null\<close> field), arrays of strings are lists.
\<close>

section \<open>JavaScript values\<close>

type_synonym sock = nat
type_synonym client_id = nat
type_synonym json = string

text \<open>\<^verbatim>\<open>x || d\<close> on a string-or-missing value: the empty string is falsy.\<close>

definition truthy :: "string option \<Rightarrow> bool" where
  "truthy v = (case v of None \<Rightarrow> False | Some s \<Rightarrow> s \<noteq> [])"

definition orElse :: "string option \<Rightarrow> string \<Rightarrow> string" where
  "orElse v d = (case v of None \<Rightarrow> d | Some s \<Rightarrow> if s = [] then d else s)"

definition orNull :: "string option \<Rightarrow> string option" where
  "orNull v = (case v of None \<Rightarrow> None | Some s \<Rightarrow> if s = [] then None else Some s)"

text \<open>
  A property read \<^verbatim>\<open>obj[key]\<close> on an object literal finds the literal's own entry, or a
  member inherited from \<^verbatim>\<open>Object.prototype\<close> (a function, or the prototype itself for
  \<^verbatim>\<open>__proto__\<close>), or \<^verbatim>\<open>undefined\<close>.
\<close>

datatype 'a prop_read = Own 'a | Inherited | Undefined

definition objectPrototypeKeys :: "string list" where
  "objectPrototypeKeys =
     [''constructor'', ''__defineGetter__'', ''__defineSetter__'', ''hasOwnProperty'',
      ''__lookupGetter__'', ''__lookupSetter__'', ''isPrototypeOf'',
      ''propertyIsEnumerable'', ''toString'', ''valueOf'', ''__proto__'',
      ''toLocaleString'']"

definition getProp :: "(string \<times> 'a) list \<Rightarrow> string \<Rightarrow> 'a prop_read" where
  "getProp obj k =
     (case map_of obj k of
        Some v \<Rightarrow> Own v
      | None \<Rightarrow> if k \<in> set objectPrototypeKeys then Inherited else Undefined)"

datatype js_error = TypeError | Error string

section \<open>Global mode: \<^verbatim>\<open>websocket-server.js\<close>\<close>

subsection \<open>Client records, frames and the server state\<close>

datatype client_type = Unknown | Controller | Remote | Display

datatype client_name =
    UnknownClient
  | GivenName string
  | RemoteClientName client_id
  | DisplayClientName client_id

text \<open>
  The record stored in \<^verbatim>\<open>clients\<close> for a connection. \<open>c_permissions\<close> is the field
  \<^verbatim>\<open>permissions\<close> (\<open>None\<close> when \<^verbatim>\<open>GRANT_PERMISSIONS\<close> stored \<^verbatim>\<open>undefined\<close>), \<open>c_role\<close> is
  \<^verbatim>\<open>role\<close> (\<open>None\<close> for \<^verbatim>\<open>undefined\<close> and \<^verbatim>\<open>null\<close>), \<open>c_requestedPermissions\<close> is
  \<^verbatim>\<open>requestedPermissions\<close> (\<open>None\<close> until \<^verbatim>\<open>REGISTER_REMOTE\<close> sets it).
\<close>

record client =
  c_id :: client_id
  c_type :: client_type
  c_permissions :: "string list option"
  c_name :: client_name
  c_role :: "string option"
  c_requestedPermissions :: "string list option"
  c_speakerName :: "string option"
  c_url :: "string option"

text \<open>Inbound frames, by \<^verbatim>\<open>data.type\<close>; \<open>None\<close> stands for a message \<^verbatim>\<open>JSON.parse\<close> rejects.\<close>

datatype frame =
    REGISTER_CONTROLLER
  | REGISTER_REMOTE "string option" "string option" "string list option" "string option"
  | REGISTER_DISPLAY "string option"
  | TIMER_UPDATE json
  | MESSAGE_UPDATE json
  | REMOTE_CONTROL string json
  | GRANT_PERMISSIONS client_id "string list option"
  | OTHER string

datatype out_msg =
    CONTROLLER_STATUS bool
  | CONTROLLER_STATUS_FOR bool "string list" "string option"
  | REMOTE_CONNECTED client_id client_name "string option" "string option" "string list"
  | REMOTE_COUNT nat
  | REQUEST_CURRENT_STATE client_id
  | DISPLAY_CONNECTED client_id client_name string
  | DISPLAY_DISCONNECTED client_id client_name "string option"
  | TIMER_UPDATE_OUT json
  | MESSAGE_UPDATE_OUT json
  | REMOTE_CONTROL_OUT string json
  | PERMISSION_DENIED string
  | PERMISSIONS_GRANTED "string list option"

record server =
  clients :: "(sock \<times> client) list"
  controllerClient :: "sock option"
  remoteClients :: "sock list"
  displayClients :: "sock list"
  sent :: "(sock \<times> out_msg) list"

definition emptyServer :: server where
  "emptyServer =
     \<lparr>clients = [], controllerClient = None, remoteClients = [], displayClients = [],
      sent = []\<rparr>"

definition setAdd :: "sock \<Rightarrow> sock list \<Rightarrow> sock list" where
  "setAdd w ws = (if w \<in> set ws then ws else ws @ [w])"

definition send :: "sock \<Rightarrow> out_msg \<Rightarrow> server \<Rightarrow> server" where
  "send w m s = s\<lparr>sent := sent s @ [(w, m)]\<rparr>"

subsection \<open>Permission engine\<close>

definition rolePermissions :: "(string \<times> string list) list" where
  "rolePermissions =
     [(''admin'',
        [''START_RESUME'', ''PAUSE'', ''STOP'', ''ADD_TIME'', ''SUBTRACT_TIME'', ''RESET'',
         ''SCHEDULE_VIEW'', ''SCHEDULE_EDIT'', ''SCHEDULE_REORDER'', ''SCHEDULE_ADD'',
         ''SCHEDULE_REMOVE'', ''MESSAGE_SEND'', ''MESSAGE_PRESET'', ''MESSAGE_PRIVATE'',
         ''MESSAGE_FLASH'', ''DISPLAY_FADE'', ''DISPLAY_SETTINGS'']),
      (''queue_manager'',
        [''START_RESUME'', ''PAUSE'', ''ADD_TIME'', ''SUBTRACT_TIME'', ''SCHEDULE_VIEW'',
         ''MESSAGE_PRESET'', ''MESSAGE_SEND'']),
      (''speaker'', [''PERSONAL_TIMER'', ''PERSONAL_MESSAGES'', ''SCHEDULE_VIEW'']),
      (''viewer'', [])]"

text \<open>
  \<^verbatim>\<open>rolePermissions[role]?.includes(action) || false\<close>: the optional chain guards only a
  missing entry, so a role that names a member of \<^verbatim>\<open>Object.prototype\<close> reaches a call of
  \<^verbatim>\<open>undefined\<close> and throws.
\<close>

definition hasRolePermission :: "string \<Rightarrow> string \<Rightarrow> js_error + bool" where
  "hasRolePermission role action =
     (case getProp rolePermissions role of
        Own actions \<Rightarrow> Inr (action \<in> set actions)
      | Inherited \<Rightarrow> Inl TypeError
      | Undefined \<Rightarrow> Inr False)"

definition permissionMap :: "(string \<times> string list) list" where
  "permissionMap =
     [(''START_RESUME'', [''TIME_CONTROL'', ''FULL_CONTROL'']),
      (''PAUSE'', [''TIME_CONTROL'', ''FULL_CONTROL'']),
      (''ADD_TIME'', [''TIME_CONTROL'', ''FULL_CONTROL'']),
      (''SEND_MESSAGE'', [''MESSAGE_ONLY'', ''TIME_CONTROL'', ''FULL_CONTROL'']),
      (''SHOW_MESSAGE'', [''MESSAGE_ONLY'', ''TIME_CONTROL'', ''FULL_CONTROL'']),
      (''FLASH_MESSAGE'', [''MESSAGE_ONLY'', ''TIME_CONTROL'', ''FULL_CONTROL'']),
      (''FADE_TO_BLACK'', [''FULL_CONTROL'']),
      (''SCHEDULE_CONTROL'', [''FULL_CONTROL'']),
      (''SETTINGS_CONTROL'', [''FULL_CONTROL''])]"

text \<open>The second half of \<^verbatim>\<open>hasPermission\<close>, after the role test: the old permission system.\<close>

definition hasGrantPermission :: "string list option \<Rightarrow> string \<Rightarrow> js_error + bool" where
  "hasGrantPermission perms action =
     (case perms of
        None \<Rightarrow> Inr False
      | Some ps \<Rightarrow>
          if ps = [] then Inr False
          else (case getProp permissionMap action of
                  Own requiredPermissions \<Rightarrow>
                    Inr (list_ex (\<lambda>permission. permission \<in> set ps) requiredPermissions)
                | Inherited \<Rightarrow> Inl TypeError
                | Undefined \<Rightarrow> Inr False))"

definition hasPermission :: "client \<Rightarrow> string \<Rightarrow> js_error + bool" where
  "hasPermission client action =
     (case c_role client of
        Some role \<Rightarrow>
          if role \<noteq> [] then hasRolePermission role action
          else hasGrantPermission (c_permissions client) action
      | None \<Rightarrow> hasGrantPermission (c_permissions client) action)"

subsection \<open>Broadcast router\<close>

text \<open>
  \<^verbatim>\<open>set.forEach\<close> visits the members in insertion order; deleting the member being visited
  does not disturb the rest of the pass. The loop carries the live set and the send log.
\<close>

fun broadcastLoop ::
  "(sock \<Rightarrow> bool) \<Rightarrow> out_msg \<Rightarrow> sock list \<Rightarrow> sock list \<times> (sock \<times> out_msg) list
     \<Rightarrow> sock list \<times> (sock \<times> out_msg) list" where
  "broadcastLoop opn m [] acc = acc"
| "broadcastLoop opn m (c # cs) (live, out) =
     (if opn c then broadcastLoop opn m cs (live, out @ [(c, m)])
      else broadcastLoop opn m cs (removeAll c live, out))"

definition broadcastToRemotes :: "(sock \<Rightarrow> bool) \<Rightarrow> out_msg \<Rightarrow> server \<Rightarrow> server" where
  "broadcastToRemotes opn m s =
     (case broadcastLoop opn m (remoteClients s) (remoteClients s, sent s) of
        (live, out) \<Rightarrow> s\<lparr>remoteClients := live, sent := out\<rparr>)"

definition broadcastToDisplays :: "(sock \<Rightarrow> bool) \<Rightarrow> out_msg \<Rightarrow> server \<Rightarrow> server" where
  "broadcastToDisplays opn m s =
     (case broadcastLoop opn m (displayClients s) (displayClients s, sent s) of
        (live, out) \<Rightarrow> s\<lparr>displayClients := live, sent := out\<rparr>)"

text \<open>\<^verbatim>\<open>controllerClient && controllerClient.readyState === WebSocket.OPEN\<close>.\<close>

definition controllerOpen :: "(sock \<Rightarrow> bool) \<Rightarrow> server \<Rightarrow> bool" where
  "controllerOpen opn s = (case controllerClient s of None \<Rightarrow> False | Some c \<Rightarrow> opn c)"

definition sendToController :: "(sock \<Rightarrow> bool) \<Rightarrow> out_msg \<Rightarrow> server \<Rightarrow> server" where
  "sendToController opn m s =
     (case controllerClient s of
        None \<Rightarrow> s
      | Some c \<Rightarrow> if opn c then send c m s else s)"

definition updateRemoteCount :: "(sock \<Rightarrow> bool) \<Rightarrow> server \<Rightarrow> server" where
  "updateRemoteCount opn s = sendToController opn (REMOTE_COUNT (length (remoteClients s))) s"

subsection \<open>Connection lifecycle and message dispatch\<close>

definition onConnection :: "sock \<Rightarrow> client_id \<Rightarrow> server \<Rightarrow> server" where
  "onConnection ws clientId s =
     s\<lparr>clients := AList.update ws
          \<lparr>c_id = clientId, c_type = Unknown, c_permissions = Some [],
           c_name = UnknownClient, c_role = None, c_requestedPermissions = None,
           c_speakerName = None, c_url = None\<rparr> (clients s)\<rparr>"

definition setClient :: "sock \<Rightarrow> client \<Rightarrow> server \<Rightarrow> server" where
  "setClient ws c s = s\<lparr>clients := AList.update ws c (clients s)\<rparr>"

text \<open>
  The target loop of \<^verbatim>\<open>GRANT_PERMISSIONS\<close>: the first entry of \<^verbatim>\<open>clients\<close>, in insertion
  order, whose id is the target's and whose type is \<^verbatim>\<open>remote\<close>.
\<close>

definition findTarget :: "client_id \<Rightarrow> (sock \<times> client) list \<Rightarrow> (sock \<times> client) option" where
  "findTarget targetClientId cs =
     find (\<lambda>(wsClient, clientData). c_id clientData = targetClientId \<and> c_type clientData = Remote) cs"

text \<open>
  The body of \<^verbatim>\<open>ws.on('message')\<close>. The whole body sits in \<^verbatim>\<open>try ... catch\<close>, which logs and
  swallows: a throw leaves the state as it was at that point. \<^verbatim>\<open>client\<close> is
  \<^verbatim>\<open>clients.get(ws)\<close>; where it is \<^verbatim>\<open>undefined\<close> the first access to one of its fields throws.
\<close>

definition handleMessage :: "(sock \<Rightarrow> bool) \<Rightarrow> sock \<Rightarrow> frame option \<Rightarrow> server \<Rightarrow> server" where
  "handleMessage opn ws msg s =
     (case msg of
        None \<Rightarrow> s
      | Some REGISTER_CONTROLLER \<Rightarrow>
          (case map_of (clients s) ws of
             None \<Rightarrow> s
           | Some client \<Rightarrow>
               broadcastToRemotes opn (CONTROLLER_STATUS True)
                 ((setClient ws (client\<lparr>c_type := Controller\<rparr>) s)\<lparr>controllerClient := Some ws\<rparr>))
      | Some (REGISTER_REMOTE name role permissions speakerName) \<Rightarrow>
          (case map_of (clients s) ws of
             None \<Rightarrow> s
           | Some client \<Rightarrow>
               (let client' = client
                      \<lparr>c_type := Remote,
                       c_name := (if truthy name then GivenName (orElse name [])
                                  else RemoteClientName (c_id client)),
                       c_role := orNull role,
                       c_requestedPermissions :=
                         Some (case permissions of None \<Rightarrow> [] | Some ps \<Rightarrow> ps),
                       c_speakerName := orNull speakerName\<rparr>;
                    requested = (case permissions of None \<Rightarrow> [] | Some ps \<Rightarrow> ps);
                    s1 = (setClient ws client' s)\<lparr>remoteClients := setAdd ws (remoteClients s)\<rparr>;
                    s2 = send ws
                           (CONTROLLER_STATUS_FOR (controllerClient s1 \<noteq> None) requested
                              (c_role client')) s1;
                    s3 = sendToController opn
                           (REMOTE_CONNECTED (c_id client) (c_name client') (c_role client')
                              (c_speakerName client') requested) s2
                in updateRemoteCount opn s3))
      | Some (REGISTER_DISPLAY url) \<Rightarrow>
          (case map_of (clients s) ws of
             None \<Rightarrow> s
           | Some client \<Rightarrow>
               (let client' = client
                      \<lparr>c_type := Display,
                       c_name := DisplayClientName (c_id client),
                       c_url := Some (orElse url ''Unknown'')\<rparr>;
                    s1 = (setClient ws client' s)\<lparr>displayClients := setAdd ws (displayClients s)\<rparr>;
                    s2 = sendToController opn (REQUEST_CURRENT_STATE (c_id client)) s1
                in sendToController opn
                     (DISPLAY_CONNECTED (c_id client) (c_name client') (orElse url ''Unknown'')) s2))
      | Some (TIMER_UPDATE d) \<Rightarrow>
          broadcastToDisplays opn (TIMER_UPDATE_OUT d)
            (broadcastToRemotes opn (TIMER_UPDATE_OUT d) s)
      | Some (MESSAGE_UPDATE d) \<Rightarrow>
          broadcastToDisplays opn (MESSAGE_UPDATE_OUT d)
            (broadcastToRemotes opn (MESSAGE_UPDATE_OUT d) s)
      | Some (REMOTE_CONTROL action d) \<Rightarrow>
          (case map_of (clients s) ws of
             None \<Rightarrow> s
           | Some client \<Rightarrow>
               (case hasPermission client action of
                  Inl err \<Rightarrow> s
                | Inr True \<Rightarrow> sendToController opn (REMOTE_CONTROL_OUT action d) s
                | Inr False \<Rightarrow> send ws (PERMISSION_DENIED action) s))
      | Some (GRANT_PERMISSIONS targetClientId permissions) \<Rightarrow>
          (case map_of (clients s) ws of
             None \<Rightarrow> s
           | Some client \<Rightarrow>
               if c_type client = Controller then
                 (case findTarget targetClientId (clients s) of
                    None \<Rightarrow> s
                  | Some (wsClient, clientData) \<Rightarrow>
                      send wsClient (PERMISSIONS_GRANTED permissions)
                        (setClient wsClient (clientData\<lparr>c_permissions := permissions\<rparr>) s))
               else s)
      | Some (OTHER t) \<Rightarrow> s)"

text \<open>The body of \<^verbatim>\<open>ws.on('close')\<close>.\<close>

definition onClose :: "(sock \<Rightarrow> bool) \<Rightarrow> sock \<Rightarrow> server \<Rightarrow> server" where
  "onClose opn ws s =
     (let s' =
        (case map_of (clients s) ws of
           None \<Rightarrow> s
         | Some client \<Rightarrow>
             if c_type client = Controller then
               broadcastToRemotes opn (CONTROLLER_STATUS False) (s\<lparr>controllerClient := None\<rparr>)
             else if c_type client = Remote then
               updateRemoteCount opn (s\<lparr>remoteClients := removeAll ws (remoteClients s)\<rparr>)
             else if c_type client = Display then
               sendToController opn
                 (DISPLAY_DISCONNECTED (c_id client) (c_name client) (c_url client))
                 (s\<lparr>displayClients := removeAll ws (displayClients s)\<rparr>)
             else s)
      in s'\<lparr>clients := AList.delete ws (clients s')\<rparr>)"

datatype event = Connection sock client_id | Message sock "frame option" | Close sock

fun step :: "(sock \<Rightarrow> bool) \<Rightarrow> event \<Rightarrow> server \<Rightarrow> server" where
  "step opn (Connection ws clientId) s = onConnection ws clientId s"
| "step opn (Message ws msg) s = handleMessage opn ws msg s"
| "step opn (Close ws) s = onClose opn ws s"

text \<open>A run: each event is handled under the transport snapshot that comes with it.\<close>

fun run :: "((sock \<Rightarrow> bool) \<times> event) list \<Rightarrow> server \<Rightarrow> server" where
  "run [] s = s"
| "run ((opn, e) # es) s = run es (step opn e s)"

section \<open>Room mode: \<^verbatim>\<open>room-server.js\<close>\<close>

subsection \<open>Rooms, hosts and participants\<close>

text \<open>
  \<^verbatim>\<open>crypto.randomBytes(3).toString('hex').toUpperCase()\<close>: three random bytes, each written
  as two upper-case hexadecimal digits.
\<close>

type_synonym rand3 = "nat \<times> nat \<times> nat"

definition hexDigit :: "nat \<Rightarrow> char" where
  "hexDigit n = ''0123456789ABCDEF'' ! (n mod 16)"

definition hexByte :: "nat \<Rightarrow> string" where
  "hexByte b = [hexDigit ((b mod 256) div 16), hexDigit (b mod 16)]"

fun generateRoomCode :: "rand3 \<Rightarrow> string" where
  "generateRoomCode (b1, b2, b3) = hexByte b1 @ hexByte b2 @ hexByte b3"

text \<open>A value of the room's state blob: \<^verbatim>\<open>null\<close>, a boolean, or any other JSON value as text.\<close>

datatype jval = JNull | JBool bool | JData json

type_synonym jobj = "(string \<times> jval) list"

text \<open>\<^verbatim>\<open>{ ...a, ...b }\<close>: the keys of \<open>b\<close> overwrite those of \<open>a\<close>; new keys follow.\<close>

definition spread :: "jobj \<Rightarrow> jobj \<Rightarrow> jobj" where
  "spread a b = fold (\<lambda>(k, v). AList.update k v) b a"

record settings =
  allowViewers :: bool
  allowSpeakers :: bool
  requireApproval :: bool
  maxUsers :: nat

text \<open>
  The host object of a room. \<open>h_oid\<close> is the object's identity: \<^verbatim>\<open>currentUser === room.host\<close>
  compares references, not fields. \<open>h_ws\<close> is \<open>None\<close> while the field is absent or \<^verbatim>\<open>null\<close>.
\<close>

record host_info =
  h_oid :: nat
  h_id :: string
  h_name :: string
  h_type :: string
  h_joinedAt :: nat
  h_ws :: "sock option"

record user_info =
  u_id :: string
  u_name :: string
  u_role :: string
  u_joinedAt :: nat
  u_ws :: "sock option"

record room =
  r_code :: string
  r_host :: host_info
  r_users :: "(string \<times> user_info) list"
  r_createdAt :: nat
  r_lastActivity :: nat
  r_settings :: settings
  r_state :: jobj

text \<open>The closure variables of one connection: \<^verbatim>\<open>currentUser\<close> and \<^verbatim>\<open>currentRoom\<close>.\<close>

datatype cur_user = CurHost host_info | CurUser user_info

record conn =
  currentUser :: "cur_user option"
  currentRoom :: "string option"


fun cur_type :: "cur_user \<Rightarrow> string option" where
  "cur_type (CurHost h) = Some (h_type h)"
| "cur_type (CurUser u) = None"

datatype room_msg =
    ERROR string
  | HOST_CONNECTED host_info
  | HOST_DISCONNECTED
  | ROOM_JOINED string "user_info list" string settings nat
  | ROOM_CLIENT_JOINED user_info
  | ROOM_CLIENT_LEFT string
  | ROOM_STATE_UPDATE jobj

record room_server =
  rooms :: "string \<rightharpoonup> room"
  nextOid :: nat
  rs_sent :: "(sock \<times> room_msg) list"

definition MAX_USERS_PER_ROOM :: nat where
  "MAX_USERS_PER_ROOM = 50"

definition emptyRoomServer :: room_server where
  "emptyRoomServer = \<lparr>rooms = Map.empty, nextOid = 0, rs_sent = []\<rparr>"

definition noConn :: conn where
  "noConn = \<lparr>currentUser = None, currentRoom = None\<rparr>"

subsection \<open>Room store\<close>

text \<open>
  \<^verbatim>\<open>createRoom(hostInfo, customRoomCode = null)\<close>; \<open>rnd\<close> feeds \<^verbatim>\<open>generateRoomCode()\<close>, which
  runs only when the custom code is falsy.
\<close>

definition createRoom ::
  "host_info \<Rightarrow> string option \<Rightarrow> rand3 \<Rightarrow> nat \<Rightarrow> room_server \<Rightarrow> room \<times> room_server" where
  "createRoom hostInfo customRoomCode rnd now s =
     (let roomCode = orElse customRoomCode (generateRoomCode rnd);
          room = \<lparr>r_code = roomCode, r_host = hostInfo, r_users = [], r_createdAt = now,
                  r_lastActivity = now,
                  r_settings = \<lparr>allowViewers = True, allowSpeakers = True,
                                 requireApproval = False, maxUsers = MAX_USERS_PER_ROOM\<rparr>,
                  r_state = [(''timer'', JNull), (''message'', JNull),
                             (''isConnected'', JBool False)]\<rparr>
      in (room, s\<lparr>rooms := (rooms s)(roomCode \<mapsto> room)\<rparr>))"

definition joinRoom ::
  "string \<Rightarrow> user_info \<Rightarrow> nat \<Rightarrow> room_server \<Rightarrow> js_error + room \<times> room_server" where
  "joinRoom roomCode userInfo now s =
     (case rooms s roomCode of
        None \<Rightarrow> Inl (Error ''Room not found'')
      | Some room \<Rightarrow>
          if length (r_users room) \<ge> maxUsers (r_settings room)
          then Inl (Error ''Room is full'')
          else (let room' = room\<lparr>r_users := AList.update (u_id userInfo) userInfo (r_users room),
                                  r_lastActivity := now\<rparr>
                in Inr (room', s\<lparr>rooms := (rooms s)(roomCode \<mapsto> room')\<rparr>)))"


text \<open>
  \<^verbatim>\<open>room.users.forEach\<close> of \<^verbatim>\<open>broadcastToRoom\<close>: a participant is sent the message when it is
  not the excluded one and its socket is attached and open. Nothing is deleted.
\<close>

definition userOpen :: "(sock \<Rightarrow> bool) \<Rightarrow> user_info \<Rightarrow> bool" where
  "userOpen opn user = (case u_ws user of None \<Rightarrow> False | Some w \<Rightarrow> opn w)"

fun roomLoop ::
  "(sock \<Rightarrow> bool) \<Rightarrow> room_msg \<Rightarrow> string option \<Rightarrow> (string \<times> user_info) list
     \<Rightarrow> (sock \<times> room_msg) list \<Rightarrow> (sock \<times> room_msg) list" where
  "roomLoop opn m excludeUserId [] out = out"
| "roomLoop opn m excludeUserId ((userId, user) # us) out =
     (case u_ws user of
        Some w \<Rightarrow>
          if Some userId \<noteq> excludeUserId \<and> opn w
          then roomLoop opn m excludeUserId us (out @ [(w, m)])
          else roomLoop opn m excludeUserId us out
      | None \<Rightarrow> roomLoop opn m excludeUserId us out)"

definition broadcastToRoom ::
  "(sock \<Rightarrow> bool) \<Rightarrow> string \<Rightarrow> room_msg \<Rightarrow> string option \<Rightarrow> room_server \<Rightarrow> room_server" where
  "broadcastToRoom opn roomCode m excludeUserId s =
     (case rooms s roomCode of
        None \<Rightarrow> s
      | Some room \<Rightarrow> s\<lparr>rs_sent := roomLoop opn m excludeUserId (r_users room) (rs_sent s)\<rparr>)"

definition rsend :: "sock \<Rightarrow> room_msg \<Rightarrow> room_server \<Rightarrow> room_server" where
  "rsend w m s = s\<lparr>rs_sent := rs_sent s @ [(w, m)]\<rparr>"

text \<open>\<^verbatim>\<open>room.host.ws && room.host.ws.readyState === WebSocket.OPEN\<close>, then a send to it.\<close>

definition sendToHost :: "(sock \<Rightarrow> bool) \<Rightarrow> room \<Rightarrow> room_msg \<Rightarrow> room_server \<Rightarrow> room_server" where
  "sendToHost opn room m s =
     (case h_ws (r_host room) of
        None \<Rightarrow> s
      | Some w \<Rightarrow> if opn w then rsend w m s else s)"

subsection \<open>HTTP endpoints that create rooms\<close>

datatype 'a response = Ok 'a | Status nat string

text \<open>
  \<^verbatim>\<open>POST /api/rooms\<close>: the host object is a fresh literal, so it takes the next object
  identity. The reply carries the room.
\<close>

definition postRooms ::
  "string option \<Rightarrow> string option \<Rightarrow> string \<Rightarrow> rand3 \<Rightarrow> nat \<Rightarrow> room_server
     \<Rightarrow> room response \<times> room_server" where
  "postRooms hostName hostType uuid rnd now s =
     (let hostInfo = \<lparr>h_oid = nextOid s, h_id = uuid, h_name = orElse hostName ''Room Host'',
                      h_type = orElse hostType ''desktop'', h_joinedAt = now, h_ws = None\<rparr>
      in case createRoom hostInfo None rnd now (s\<lparr>nextOid := Suc (nextOid s)\<rparr>) of
           (room, s') \<Rightarrow> (Ok room, s'))"

text \<open>
  \<^verbatim>\<open>POST /api/rooms/create\<close>: the code is the requested one or a generated one (\<open>rnd\<close>); a
  live code is refused before \<^verbatim>\<open>createRoom\<close> runs. \<open>rnd'\<close> feeds the draw inside
  \<^verbatim>\<open>createRoom\<close>.
\<close>

definition postRoomsCreate ::
  "string option \<Rightarrow> string option \<Rightarrow> string option \<Rightarrow> string \<Rightarrow> rand3 \<Rightarrow> rand3 \<Rightarrow> nat
     \<Rightarrow> room_server \<Rightarrow> room response \<times> room_server" where
  "postRoomsCreate roomCode hostType hostName uuid rnd rnd' now s =
     (let code = orElse roomCode (generateRoomCode rnd)
      in if rooms s code \<noteq> None then (Status 400 ''Room code already exists'', s)
         else (let hostInfo = \<lparr>h_oid = nextOid s, h_id = uuid,
                                h_name = orElse hostName ''Desktop App'',
                                h_type = orElse hostType ''desktop'', h_joinedAt = now,
                                h_ws = None\<rparr>
               in case createRoom hostInfo (Some code) rnd' now (s\<lparr>nextOid := Suc (nextOid s)\<rparr>) of
                    (room, s') \<Rightarrow> (Ok room, s')))"

subsection \<open>WebSocket handlers\<close>

text \<open>
  \<^verbatim>\<open>handleJoinRoom\<close>. \<open>clientInfo\<close> is the frame's \<^verbatim>\<open>clientInfo\<close>: \<open>None\<close> when the field is
  missing or \<^verbatim>\<open>null\<close>, otherwise its \<^verbatim>\<open>name\<close> and \<^verbatim>\<open>role\<close>. Only the participant branch reads
  it, and it reads \<^verbatim>\<open>clientInfo.name\<close> unguarded: without a \<^verbatim>\<open>clientInfo\<close> the read throws, before
  anything has been changed. \<open>uuid\<close> is the participant id drawn in the participant branch.
\<close>

definition handleJoinRoom ::
  "(sock \<Rightarrow> bool) \<Rightarrow> sock \<Rightarrow> string \<Rightarrow> string option
     \<Rightarrow> (string option \<times> string option) option
     \<Rightarrow> string \<Rightarrow> nat \<Rightarrow> conn \<times> room_server \<Rightarrow> js_error + conn \<times> room_server" where
  "handleJoinRoom opn ws roomCode clientType clientInfo uuid now cs =
     (case cs of (c, s) \<Rightarrow>
       (case rooms s roomCode of
          None \<Rightarrow> Inr (c, rsend ws (ERROR ''Room not found'') s)
        | Some room \<Rightarrow>
            if clientType = Some ''host'' then
              (let host' = (r_host room)\<lparr>h_ws := Some ws\<rparr>;
                   room' = room\<lparr>r_host := host',
                                r_state := AList.update ''isConnected'' (JBool True) (r_state room),
                                r_lastActivity := now\<rparr>;
                   s1 = s\<lparr>rooms := (rooms s)(roomCode \<mapsto> room')\<rparr>;
                   s2 = broadcastToRoom opn roomCode (HOST_CONNECTED host') None s1
               in Inr (\<lparr>currentUser = Some (CurHost host'), currentRoom = Some roomCode\<rparr>,
                       rsend ws
                         (ROOM_JOINED roomCode (map snd (r_users room')) (r_code room')
                            (r_settings room') (length (r_users room'))) s2))
            else
              (case clientInfo of
                 None \<Rightarrow> Inl TypeError
               | Some (clientName, clientRole) \<Rightarrow>
                   (let userInfo = \<lparr>u_id = uuid, u_name = orElse clientName ''Anonymous User'',
                                    u_role = orElse clientRole ''viewer'', u_joinedAt = now,
                                    u_ws = Some ws\<rparr>;
                        room' = room\<lparr>r_users := AList.update (u_id userInfo) userInfo
                                                    (r_users room),
                                     r_lastActivity := now\<rparr>;
                        s1 = s\<lparr>rooms := (rooms s)(roomCode \<mapsto> room')\<rparr>;
                        s2 = sendToHost opn room' (ROOM_CLIENT_JOINED userInfo) s1
                    in Inr (\<lparr>currentUser = Some (CurUser userInfo),
                             currentRoom = Some roomCode\<rparr>,
                            rsend ws
                              (ROOM_JOINED roomCode (map snd (r_users room')) (r_code room')
                                 (r_settings room') (length (r_users room'))) s2)))))"

text \<open>
  The body of \<^verbatim>\<open>ws.on('message')\<close> for a frame whose type is \<^verbatim>\<open>JOIN_ROOM\<close>:
  \<^verbatim>\<open>handleWebSocketMessage\<close> dispatches to \<^verbatim>\<open>handleJoinRoom\<close> inside \<^verbatim>\<open>try\<close>, and the \<^verbatim>\<open>catch\<close>
  answers a throw with \<^verbatim>\<open>ERROR\<close> \<^verbatim>\<open>Invalid message format\<close> to the sender. The state is as the
  throw left it, which for \<^verbatim>\<open>handleJoinRoom\<close> is the state before the frame.
\<close>

definition onJoinRoomMessage ::
  "(sock \<Rightarrow> bool) \<Rightarrow> sock \<Rightarrow> string \<Rightarrow> string option
     \<Rightarrow> (string option \<times> string option) option
     \<Rightarrow> string \<Rightarrow> nat \<Rightarrow> conn \<times> room_server \<Rightarrow> conn \<times> room_server" where
  "onJoinRoomMessage opn ws roomCode clientType clientInfo uuid now cs =
     (case handleJoinRoom opn ws roomCode clientType clientInfo uuid now cs of
        Inr result \<Rightarrow> result
      | Inl err \<Rightarrow> (fst cs, rsend ws (ERROR ''Invalid message format'') (snd cs)))"



text \<open>
  \<^verbatim>\<open>handleRoomStateUpdate\<close>; \<open>update\<close> is \<^verbatim>\<open>data.state\<close> (\<open>None\<close> when the frame has none: a
  spread of \<^verbatim>\<open>undefined\<close> adds nothing).
\<close>

definition handleRoomStateUpdate ::
  "(sock \<Rightarrow> bool) \<Rightarrow> jobj option \<Rightarrow> nat \<Rightarrow> conn \<times> room_server \<Rightarrow> conn \<times> room_server" where
  "handleRoomStateUpdate opn update now cs =
     (case cs of (c, s) \<Rightarrow>
       (case currentUser c of
          None \<Rightarrow> (c, s)
        | Some cu \<Rightarrow>
            if \<not> truthy (currentRoom c) \<or> cur_type cu \<noteq> Some ''desktop'' then (c, s)
            else
              (case rooms s (orElse (currentRoom c) []) of
                 None \<Rightarrow> (c, s)
               | Some room \<Rightarrow>
                   (let room' = room\<lparr>r_state := spread (r_state room)
                                                   (case update of None \<Rightarrow> [] | Some u \<Rightarrow> u),
                                     r_lastActivity := now\<rparr>;
                        s1 = s\<lparr>rooms := (rooms s)(orElse (currentRoom c) [] \<mapsto> room')\<rparr>
                    in (c, broadcastToRoom opn (orElse (currentRoom c) [])
                             (ROOM_STATE_UPDATE (r_state room')) None s1)))))"

section \<open>Room codes of the authentication server: \<^verbatim>\<open>auth-server.js\<close>\<close>

record auth_user =
  au_id :: string
  au_name :: string
  au_email :: string
  au_rooms :: "string list"

record auth_server =
  au_users :: "string \<rightharpoonup> auth_user"
  roomOwners :: "string \<rightharpoonup> string"

text \<open>
  The \<^verbatim>\<open>do ... while (roomOwners.has(roomCode) && attempts < 10)\<close> loop, entered with the
  number of draws made so far; \<open>draws i\<close> feeds the draw made when \<^verbatim>\<open>attempts\<close> is \<open>i\<close>.
  It returns the last code drawn and the final value of \<^verbatim>\<open>attempts\<close>.
\<close>

function codeLoop :: "(nat \<Rightarrow> rand3) \<Rightarrow> (string \<rightharpoonup> string) \<Rightarrow> nat \<Rightarrow> string \<times> nat" where
  "codeLoop draws owners attempts =
     (let roomCode = generateRoomCode (draws attempts);
          attempts' = attempts + 1
      in if owners roomCode \<noteq> None \<and> attempts' < 10
         then codeLoop draws owners attempts'
         else (roomCode, attempts'))"
  by pat_completeness auto
termination
  by (relation "measure (\<lambda>(draws, owners, attempts). 10 - attempts)") auto

text \<open>
  \<^verbatim>\<open>POST /api/rooms/create\<close> of the authentication server, after \<^verbatim>\<open>authenticateToken\<close> has
  put the token's \<open>email\<close> and \<open>userId\<close> on the request. Of the room object in the reply
  only the code is kept.
\<close>

definition authCreateRoom ::
  "(nat \<Rightarrow> rand3) \<Rightarrow> string \<Rightarrow> string \<Rightarrow> auth_server \<Rightarrow> string response \<times> auth_server" where
  "authCreateRoom draws email userId s =
     (case au_users s email of
        None \<Rightarrow> (Status 404 ''User not found'', s)
      | Some user \<Rightarrow>
          (case codeLoop draws (roomOwners s) 0 of
             (roomCode, attempts) \<Rightarrow>
               if attempts \<ge> 10 then (Status 500 ''Failed to generate unique room code'', s)
               else (Ok roomCode,
                     s\<lparr>roomOwners := (roomOwners s)(roomCode \<mapsto> userId),
                       au_users := (au_users s)
                         (email \<mapsto> user\<lparr>au_rooms := au_rooms user @ [roomCode]\<rparr>)\<rparr>)))"

section \<open>One-time tokens of the remote page: \<^verbatim>\<open>websocket-server.js\<close>\<close>

record auth_data =
  expires :: nat
  used :: bool

text \<open>
  \<^verbatim>\<open>authTokens\<close>, and the callbacks \<^verbatim>\<open>setTimeout\<close> has scheduled and not yet run, each with
  the time it is due and the token it deletes.
\<close>

record token_store =
  authTokens :: "string \<rightharpoonup> auth_data"
  timers :: "(nat \<times> string) list"

definition REMOTE_AUTH_TIMEOUT :: nat where
  "REMOTE_AUTH_TIMEOUT = 5 * 60 * 1000"

text \<open>\<open>token\<close> is the value of \<^verbatim>\<open>crypto.randomBytes(32).toString('hex')\<close>.\<close>

definition generateAuthToken :: "string \<Rightarrow> nat \<Rightarrow> token_store \<Rightarrow> string \<times> token_store" where
  "generateAuthToken token now ts =
     (token,
      ts\<lparr>authTokens := (authTokens ts)
            (token \<mapsto> \<lparr>expires = now + REMOTE_AUTH_TIMEOUT, used = False\<rparr>),
         timers := timers ts @ [(now + REMOTE_AUTH_TIMEOUT, token)]\<rparr>)"

definition validateAuthToken :: "string \<Rightarrow> nat \<Rightarrow> token_store \<Rightarrow> bool \<times> token_store" where
  "validateAuthToken token now ts =
     (case authTokens ts token of
        None \<Rightarrow> (False, ts)
      | Some authData \<Rightarrow>
          if now > expires authData
          then (False, ts\<lparr>authTokens := (authTokens ts)(token := None)\<rparr>)
          else if used authData then (False, ts)
          else (True, ts\<lparr>authTokens := (authTokens ts)(token \<mapsto> authData\<lparr>used := True\<rparr>)\<rparr>))"

text \<open>
  A scheduled callback runs once its time has come: it deletes its token and leaves the
  queue. Without such a callback pending nothing happens.
\<close>

definition fireTimer :: "string \<Rightarrow> nat \<Rightarrow> token_store \<Rightarrow> token_store" where
  "fireTimer token now ts =
     (case find (\<lambda>(due, t). t = token \<and> due \<le> now) (timers ts) of
        None \<Rightarrow> ts
      | Some timer \<Rightarrow>
          ts\<lparr>authTokens := (authTokens ts)(token := None),
             timers := remove1 timer (timers ts)\<rparr>)"

datatype auth_event = Generate string nat | Validate string nat | Fire string nat

text \<open>A run of the token store; it logs the answer of every \<^verbatim>\<open>validateAuthToken\<close> call.\<close>

fun authRun :: "auth_event list \<Rightarrow> token_store \<Rightarrow> (string \<times> bool) list \<times> token_store" where
  "authRun [] ts = ([], ts)"
| "authRun (Generate token now # es) ts = authRun es (snd (generateAuthToken token now ts))"
| "authRun (Validate token now # es) ts =
     (case validateAuthToken token now ts of
        (b, ts') \<Rightarrow> (case authRun es ts' of (answers, ts'') \<Rightarrow> ((token, b) # answers, ts'')))"
| "authRun (Fire token now # es) ts = authRun es (fireTimer token now ts)"

section \<open>States used in the examples\<close>

text \<open>
  Room \<^verbatim>\<open>AB12CD\<close> after its creation over \<^verbatim>\<open>POST /api/rooms/create\<close>, the host's
  \<^verbatim>\<open>JOIN_ROOM\<close> on socket 1 and one participant's \<^verbatim>\<open>JOIN_ROOM\<close> on socket 2 (lemma
  \<open>storeAB_reached\<close> below), with the send log cleared.
\<close>

definition hostAB :: host_info where
  "hostAB = \<lparr>h_oid = 0, h_id = ''host-1'', h_name = ''Desktop App'', h_type = ''desktop'',
              h_joinedAt = 10, h_ws = Some 1\<rparr>"

definition userP :: user_info where
  "userP = \<lparr>u_id = ''user-1'', u_name = ''P'', u_role = ''viewer'', u_joinedAt = 30,
             u_ws = Some 2\<rparr>"

definition roomAB :: room where
  "roomAB = \<lparr>r_code = ''AB12CD'', r_host = hostAB, r_users = [(''user-1'', userP)],
              r_createdAt = 10, r_lastActivity = 30,
              r_settings = \<lparr>allowViewers = True, allowSpeakers = True,
                             requireApproval = False, maxUsers = 50\<rparr>,
              r_state = [(''timer'', JNull), (''message'', JNull),
                         (''isConnected'', JBool True)]\<rparr>"

definition storeAB :: room_server where
  "storeAB = \<lparr>rooms = [''AB12CD'' \<mapsto> roomAB], nextOid = 1, rs_sent = []\<rparr>"

definition hostConn :: conn where
  "hostConn = \<lparr>currentUser = Some (CurHost hostAB), currentRoom = Some ''AB12CD''\<rparr>"

definition userConn :: conn where
  "userConn = \<lparr>currentUser = Some (CurUser userP), currentRoom = Some ''AB12CD''\<rparr>"

text \<open>
  The same room with fifty participants, as fifty calls of \<^verbatim>\<open>POST /api/rooms/:roomCode/join\<close>
  leave it: the ids are \<^verbatim>\<open>u\<close>, \<^verbatim>\<open>ux\<close>, \<^verbatim>\<open>uxx\<close>, ..., and no socket is attached yet.
\<close>

definition crowd :: "(string \<times> user_info) list" where
  "crowd =
     map (\<lambda>n. (CHR ''u'' # replicate n CHR ''x'',
               \<lparr>u_id = CHR ''u'' # replicate n CHR ''x'', u_name = ''Anonymous User'',
                u_role = ''viewer'', u_joinedAt = 30, u_ws = None\<rparr>)) [0..<50]"

definition fullStore :: room_server where
  "fullStore = \<lparr>rooms = [''AB12CD'' \<mapsto> roomAB\<lparr>r_users := crowd\<rparr>], nextOid = 1, rs_sent = []\<rparr>"

definition newUser :: user_info where
  "newUser = \<lparr>u_id = ''user-new'', u_name = ''N'', u_role = ''viewer'', u_joinedAt = 70,
               u_ws = Some 7\<rparr>"

text \<open>
  Global mode with a controller on socket 1 and a remote on socket 2 that registered with
  role \<^verbatim>\<open>viewer\<close> and was then granted \<^verbatim>\<open>FULL_CONTROL\<close> (lemma \<open>relayAB_reached\<close> below), with
  the send log cleared.
\<close>

definition controllerA :: client where
  "controllerA =
     \<lparr>c_id = 101, c_type = Controller, c_permissions = Some [], c_name = UnknownClient,
      c_role = None, c_requestedPermissions = None, c_speakerName = None, c_url = None\<rparr>"

definition viewerB :: client where
  "viewerB =
     \<lparr>c_id = 102, c_type = Remote, c_permissions = Some [''FULL_CONTROL''],
      c_name = GivenName ''B'', c_role = Some ''viewer'', c_requestedPermissions = Some [],
      c_speakerName = None, c_url = None\<rparr>"

definition relayAB :: server where
  "relayAB =
     \<lparr>clients = [(1, controllerA), (2, viewerB)], controllerClient = Some 1,
      remoteClients = [2], displayClients = [], sent = []\<rparr>"

text \<open>An authentication server with one user, who owns room \<^verbatim>\<open>000000\<close>.\<close>

definition authA :: auth_server where
  "authA =
     \<lparr>au_users = [''a@b.c'' \<mapsto> \<lparr>au_id = ''user_1'', au_name = ''A'', au_email = ''a@b.c'',
                                  au_rooms = [''000000'']\<rparr>],
      roomOwners = [''000000'' \<mapsto> ''user_1'']\<rparr>"

text \<open>The token store of a server that has issued no token yet.\<close>

definition noTokens :: token_store where
  "noTokens = \<lparr>authTokens = Map.empty, timers = []\<rparr>"

section \<open>Invariants used in the proofs\<close>


text \<open>
  A token is spent when \<^verbatim>\<open>authTokens\<close> has no entry for it or the entry is marked used; its
  entry, while there is one, expires at \<open>e\<close>.
\<close>

definition spent :: "string \<Rightarrow> token_store \<Rightarrow> bool" where
  "spent token ts = (case authTokens ts token of None \<Rightarrow> True | Some d \<Rightarrow> used d)"

definition expiresBy :: "string \<Rightarrow> nat \<Rightarrow> token_store \<Rightarrow> bool" where
  "expiresBy token e ts = (case authTokens ts token of None \<Rightarrow> True | Some d \<Rightarrow> expires d = e)"

section \<open>Properties of global mode\<close>

subsection \<open>The broadcast loop and the clients map\<close>

lemma broadcastLoop_eq:
  "broadcastLoop opn m cs (live, out) =
     (filter (\<lambda>x. x \<notin> set cs \<or> opn x) live, out @ map (\<lambda>c. (c, m)) (filter opn cs))"
proof (induction cs arbitrary: live out)
  case Nil
  then show ?case by simp
next
  case (Cons c cs)
  show ?case
  proof (cases "opn c")
    case True
    have "filter (\<lambda>x. x \<notin> set cs \<or> opn x) live = filter (\<lambda>x. x \<notin> set (c # cs) \<or> opn x) live"
      using True by (intro filter_cong) auto
    with True Cons.IH show ?thesis by simp
  next
    case False
    have "filter (\<lambda>x. x \<notin> set cs \<or> opn x) (removeAll c live)
            = filter (\<lambda>x. x \<notin> set (c # cs) \<or> opn x) live"
      using False by (induction live) auto
    with False Cons.IH show ?thesis by simp
  qed
qed

lemma broadcastLoop_self:
  "broadcastLoop opn m cs (cs, out) = (filter opn cs, out @ map (\<lambda>c. (c, m)) (filter opn cs))"
proof -
  have "filter (\<lambda>x. x \<notin> set cs \<or> opn x) cs = filter opn cs"
    by (intro filter_cong) auto
  then show ?thesis by (simp add: broadcastLoop_eq)
qed

lemma broadcastToRemotes_eq:
  "broadcastToRemotes opn m s =
     s\<lparr>remoteClients := filter opn (remoteClients s),
       sent := sent s @ map (\<lambda>c. (c, m)) (filter opn (remoteClients s))\<rparr>"
  by (simp add: broadcastToRemotes_def broadcastLoop_self)

lemma broadcastToDisplays_eq:
  "broadcastToDisplays opn m s =
     s\<lparr>displayClients := filter opn (displayClients s),
       sent := sent s @ map (\<lambda>c. (c, m)) (filter opn (displayClients s))\<rparr>"
  by (simp add: broadcastToDisplays_def broadcastLoop_self)

lemma clients_broadcastToRemotes: "clients (broadcastToRemotes opn m s) = clients s"
  by (simp add: broadcastToRemotes_eq)

lemma clients_broadcastToDisplays: "clients (broadcastToDisplays opn m s) = clients s"
  by (simp add: broadcastToDisplays_eq)

lemma clients_send: "clients (send w m s) = clients s"
  by (simp add: send_def)

lemma clients_sendToController: "clients (sendToController opn m s) = clients s"
  by (simp add: sendToController_def send_def split: option.splits)

lemma clients_updateRemoteCount: "clients (updateRemoteCount opn s) = clients s"
  by (simp add: updateRemoteCount_def clients_sendToController)

lemma clients_setClient: "clients (setClient w c s) = AList.update w c (clients s)"
  by (simp add: setClient_def)

lemmas clients_simps =
  clients_broadcastToRemotes clients_broadcastToDisplays clients_send
  clients_sendToController clients_updateRemoteCount clients_setClient











lemmas global_defs =
  emptyServer_def onConnection_def handleMessage_def onClose_def broadcastToRemotes_def
  broadcastToDisplays_def setClient_def setAdd_def send_def sendToController_def
  updateRemoteCount_def truthy_def orElse_def orNull_def findTarget_def Let_def

lemma relayAB_reached:
  "run [(\<lambda>w. True, Connection 1 101), (\<lambda>w. True, Connection 2 102),
        (\<lambda>w. True, Message 1 (Some REGISTER_CONTROLLER)),
        (\<lambda>w. True, Message 2 (Some (REGISTER_REMOTE (Some ''B'') (Some ''viewer'') None None))),
        (\<lambda>w. True, Message 1 (Some (GRANT_PERMISSIONS 102 (Some [''FULL_CONTROL'']))))]
     emptyServer =
   relayAB\<lparr>sent := [(2, CONTROLLER_STATUS_FOR True [] (Some ''viewer'')),
                    (1, REMOTE_CONNECTED 102 (GivenName ''B'') (Some ''viewer'') None []),
                    (1, REMOTE_COUNT 1),
                    (2, PERMISSIONS_GRANTED (Some [''FULL_CONTROL'']))]\<rparr>"
  by (simp add: global_defs relayAB_def controllerA_def viewerB_def)

subsection \<open>Permission checks\<close>

text \<open>
  Claim C2. Permission checking is role-first. For a client that declares a role the
  decision is \<open>hasRolePermission\<close> of that role, which takes no grant set, and the decision
  is the same whatever grants the record holds; the grant mapping decides only when no
  role is declared. A connection that registers as remote with role \<^verbatim>\<open>viewer\<close> has that
  role on its record, and a \<^verbatim>\<open>REMOTE_CONTROL\<close> frame with action \<^verbatim>\<open>START_RESUME\<close> from a
  client whose role is \<^verbatim>\<open>viewer\<close> changes nothing but the send log, which gains exactly one
  entry: \<^verbatim>\<open>PERMISSION_DENIED\<close> for \<^verbatim>\<open>START_RESUME\<close>, to the sender. Nothing is sent to the
  controller, whatever \<open>c_permissions\<close> holds.
\<close>

theorem permission_check_is_role_first:
  "(truthy (c_role c) \<longrightarrow>
      hasPermission c action = hasRolePermission (orElse (c_role c) []) action \<and>
      hasPermission (c\<lparr>c_permissions := grants\<rparr>) action = hasPermission c action) \<and>
   (\<not> truthy (c_role c) \<longrightarrow>
      hasPermission c action = hasGrantPermission (c_permissions c) action) \<and>
   (map_of (clients s) ws = Some c \<longrightarrow>
      (\<exists>c'. map_of (clients (handleMessage opn ws
                 (Some (REGISTER_REMOTE name (Some ''viewer'') requested speakerName)) s)) ws = Some c' \<and>
            c_role c' = Some ''viewer'' \<and> c_permissions c' = c_permissions c)) \<and>
   (map_of (clients s) ws = Some c \<and> c_role c = Some ''viewer'' \<longrightarrow>
      handleMessage opn ws (Some (REMOTE_CONTROL ''START_RESUME'' d)) s =
        s\<lparr>sent := sent s @ [(ws, PERMISSION_DENIED ''START_RESUME'')]\<rparr>)"
proof (intro conjI impI)
  assume "truthy (c_role c)"
  then obtain r where r: "c_role c = Some r" "r \<noteq> []"
    by (auto simp: truthy_def split: option.splits)
  then show "hasPermission c action = hasRolePermission (orElse (c_role c) []) action"
    by (simp add: hasPermission_def orElse_def)
  from r show "hasPermission (c\<lparr>c_permissions := grants\<rparr>) action = hasPermission c action"
    by (simp add: hasPermission_def)
next
  assume "\<not> truthy (c_role c)"
  then show "hasPermission c action = hasGrantPermission (c_permissions c) action"
    by (auto simp: truthy_def hasPermission_def split: option.splits)
next
  assume "map_of (clients s) ws = Some c"
  then show "\<exists>c'. map_of (clients (handleMessage opn ws
                 (Some (REGISTER_REMOTE name (Some ''viewer'') requested speakerName)) s)) ws = Some c' \<and>
            c_role c' = Some ''viewer'' \<and> c_permissions c' = c_permissions c"
    by (simp add: handleMessage_def Let_def clients_simps update_conv' orNull_def)
next
  assume "map_of (clients s) ws = Some c \<and> c_role c = Some ''viewer''"
  then show "handleMessage opn ws (Some (REMOTE_CONTROL ''START_RESUME'' d)) s =
        s\<lparr>sent := sent s @ [(ws, PERMISSION_DENIED ''START_RESUME'')]\<rparr>"
    by (simp add: handleMessage_def hasPermission_def hasRolePermission_def getProp_def
        rolePermissions_def send_def)
qed

theorem permission_check_is_role_first_witness:
  "truthy (c_role viewerB) \<and>
   hasPermission viewerB ''START_RESUME'' = Inr False \<and>
   hasPermission (viewerB\<lparr>c_permissions := Some []\<rparr>) ''START_RESUME'' = Inr False \<and>
   hasGrantPermission (c_permissions viewerB) ''START_RESUME'' = Inr True \<and>
   \<not> truthy (c_role (viewerB\<lparr>c_role := None\<rparr>)) \<and>
   hasPermission (viewerB\<lparr>c_role := None\<rparr>) ''START_RESUME'' = Inr True \<and>
   map_of (clients relayAB) 2 = Some viewerB \<and>
   map_of (clients (handleMessage (\<lambda>w. True) 2
                      (Some (REGISTER_REMOTE (Some ''B'') (Some ''viewer'') None None)) relayAB)) 2 =
     Some (viewerB\<lparr>c_requestedPermissions := Some []\<rparr>) \<and>
   handleMessage (\<lambda>w. True) 2 (Some (REMOTE_CONTROL ''START_RESUME'' ''{}'')) relayAB =
     relayAB\<lparr>sent := [(2, PERMISSION_DENIED ''START_RESUME'')]\<rparr>"
proof -
  note t = permission_check_is_role_first
  have h1: "truthy (c_role viewerB)"
    by (simp add: viewerB_def truthy_def)
  from t [where c = viewerB and action = "''START_RESUME''" and grants = "Some []"]
  have "truthy (c_role viewerB) \<longrightarrow>
          hasPermission viewerB ''START_RESUME'' =
            hasRolePermission (orElse (c_role viewerB) []) ''START_RESUME'' \<and>
          hasPermission (viewerB\<lparr>c_permissions := Some []\<rparr>) ''START_RESUME'' =
            hasPermission viewerB ''START_RESUME''"
    by (rule conjunct1)
  with h1 have c1: "hasPermission viewerB ''START_RESUME'' = Inr False \<and>
                    hasPermission (viewerB\<lparr>c_permissions := Some []\<rparr>) ''START_RESUME'' = Inr False"
    by (simp add: viewerB_def orElse_def hasRolePermission_def getProp_def rolePermissions_def)
  have g: "hasGrantPermission (c_permissions viewerB) ''START_RESUME'' = Inr True"
    by (simp add: viewerB_def hasGrantPermission_def getProp_def permissionMap_def)
  have h2: "\<not> truthy (c_role (viewerB\<lparr>c_role := None\<rparr>))"
    by (simp add: truthy_def)
  from t [where c = "viewerB\<lparr>c_role := None\<rparr>" and action = "''START_RESUME''"]
  have "\<not> truthy (c_role (viewerB\<lparr>c_role := None\<rparr>)) \<longrightarrow>
          hasPermission (viewerB\<lparr>c_role := None\<rparr>) ''START_RESUME'' =
            hasGrantPermission (c_permissions (viewerB\<lparr>c_role := None\<rparr>)) ''START_RESUME''"
    by (rule conjunct2 [THEN conjunct1])
  with h2 g have c2: "hasPermission (viewerB\<lparr>c_role := None\<rparr>) ''START_RESUME'' = Inr True"
    by simp
  have h3: "map_of (clients relayAB) 2 = Some viewerB"
    by (simp add: relayAB_def)
  have h4: "map_of (clients relayAB) 2 = Some viewerB \<and> c_role viewerB = Some ''viewer''"
    by (simp add: relayAB_def viewerB_def)
  from t [where c = viewerB and s = relayAB and ws = 2 and opn = "\<lambda>w. True"
            and d = "''{}''"]
  have "map_of (clients relayAB) 2 = Some viewerB \<and> c_role viewerB = Some ''viewer'' \<longrightarrow>
          handleMessage (\<lambda>w. True) 2 (Some (REMOTE_CONTROL ''START_RESUME'' ''{}'')) relayAB =
            relayAB\<lparr>sent := sent relayAB @ [(2, PERMISSION_DENIED ''START_RESUME'')]\<rparr>"
    by (rule conjunct2 [THEN conjunct2, THEN conjunct2])
  with h4 have c4: "handleMessage (\<lambda>w. True) 2 (Some (REMOTE_CONTROL ''START_RESUME'' ''{}'')) relayAB =
     relayAB\<lparr>sent := [(2, PERMISSION_DENIED ''START_RESUME'')]\<rparr>"
    by (simp add: relayAB_def)
  have c3: "map_of (clients (handleMessage (\<lambda>w. True) 2
                      (Some (REGISTER_REMOTE (Some ''B'') (Some ''viewer'') None None)) relayAB)) 2 =
     Some (viewerB\<lparr>c_requestedPermissions := Some []\<rparr>)"
    by (simp add: global_defs relayAB_def controllerA_def viewerB_def)
  from h1 c1 g h2 c2 h3 c3 c4 show ?thesis by (intro conjI) simp_all
qed



subsection \<open>The controller slot\<close>

text \<open>
  Claim C5, evaluated on the code. Sockets 1 and 2 register as controller in turn, socket 3
  is a remote; then socket 1, the superseded controller, closes while socket 2 stays open.
  The close handler tests only the closing client's type: the slot \<open>controllerClient\<close> ends
  empty although socket 2 is still registered as controller, and remote 3 is sent
  \<^verbatim>\<open>CONTROLLER_STATUS\<close> with \<^verbatim>\<open>connected: false\<close> (the last entry of the send log).
\<close>

theorem superseded_controller_close_clears_slot:
  "run [(\<lambda>w. True, Connection 1 101), (\<lambda>w. True, Connection 2 102),
        (\<lambda>w. True, Connection 3 103),
        (\<lambda>w. True, Message 3 (Some (REGISTER_REMOTE (Some ''R'') None None None))),
        (\<lambda>w. True, Message 1 (Some REGISTER_CONTROLLER)),
        (\<lambda>w. True, Message 2 (Some REGISTER_CONTROLLER)),
        (\<lambda>w. w \<noteq> 1, Close 1)] emptyServer =
   \<lparr>clients =
      [(2, \<lparr>c_id = 102, c_type = Controller, c_permissions = Some [], c_name = UnknownClient,
            c_role = None, c_requestedPermissions = None, c_speakerName = None, c_url = None\<rparr>),
       (3, \<lparr>c_id = 103, c_type = Remote, c_permissions = Some [], c_name = GivenName ''R'',
            c_role = None, c_requestedPermissions = Some [], c_speakerName = None,
            c_url = None\<rparr>)],
    controllerClient = None, remoteClients = [3], displayClients = [],
    sent = [(3, CONTROLLER_STATUS_FOR False [] None), (3, CONTROLLER_STATUS True),
            (3, CONTROLLER_STATUS True), (3, CONTROLLER_STATUS False)]\<rparr>"
  by (simp add: global_defs)

section \<open>Properties of room mode\<close>

subsection \<open>The room loop, the state merge and the example room\<close>

lemma roomLoop_eq:
  "roomLoop opn m ex us out =
     out @ map (\<lambda>w. (w, m))
             (List.map_filter
                (\<lambda>(k, u). case u_ws u of
                              None \<Rightarrow> None
                            | Some w \<Rightarrow> if Some k \<noteq> ex \<and> opn w then Some w else None) us)"
  by (induction us arbitrary: out) (auto simp: List.map_filter_simps split: option.splits)

lemma roomLoop_None:
  "roomLoop opn m None us out =
     out @ map (\<lambda>w. (w, m))
             (List.map_filter
                (\<lambda>(k, u). case u_ws u of
                              None \<Rightarrow> None
                            | Some w \<Rightarrow> if opn w then Some w else None) us)"
  by (induction us arbitrary: out) (auto simp: List.map_filter_simps split: option.splits)

lemma spread_map_of: "map_of (spread a b) = map_of a ++ map_of (rev b)"
proof (induction b arbitrary: a)
  case Nil
  then show ?case by (simp add: spread_def)
next
  case (Cons x b)
  obtain k v where x: "x = (k, v)" by (cases x)
  have "map_of (spread a (x # b)) = map_of (spread (AList.update k v a) b)"
    by (simp add: spread_def x)
  also have "\<dots> = map_of (AList.update k v a) ++ map_of (rev b)"
    by (rule Cons.IH)
  also have "\<dots> = map_of a ++ map_of (rev (x # b))"
    by (simp add: x update_conv' map_add_def fun_eq_iff split: option.splits)
  finally show ?case .
qed

lemmas room_defs =
  emptyRoomServer_def noConn_def postRoomsCreate_def createRoom_def handleJoinRoom_def
  onJoinRoomMessage_def
  broadcastToRoom_def rsend_def sendToHost_def orElse_def truthy_def hexByte_def hexDigit_def
  MAX_USERS_PER_ROOM_def Let_def

lemmas example_defs = hostAB_def userP_def roomAB_def storeAB_def

lemma storeAB_reached:
  "onJoinRoomMessage (\<lambda>w. True) 2 ''AB12CD'' (Some ''web'') (Some (Some ''P'', None))
     ''user-1'' 30
     (noConn,
      snd (onJoinRoomMessage (\<lambda>w. True) 1 ''AB12CD'' (Some ''host'') None ''unused'' 20
             (noConn,
              snd (postRoomsCreate (Some ''AB12CD'') None None ''host-1'' (0, 0, 0) (0, 0, 0) 10
                     emptyRoomServer)))) =
   (userConn,
    storeAB\<lparr>rs_sent :=
      [(1, ROOM_JOINED ''AB12CD'' [] ''AB12CD'' (r_settings roomAB) 0),
       (1, ROOM_CLIENT_JOINED userP),
       (2, ROOM_JOINED ''AB12CD'' [userP] ''AB12CD'' (r_settings roomAB) 1)]\<rparr>)"
  by (simp add: room_defs example_defs userConn_def)

section \<open>State updates\<close>

text \<open>
  Claim C1 as stated fails in global mode. Socket 4 has connected and never registered
  (its type is \<^verbatim>\<open>unknown\<close>); socket 1 is the controller. A \<^verbatim>\<open>TIMER_UPDATE\<close> frame from
  socket 4 is fanned out to remote 2 and display 3 (the last two entries of the send log).
\<close>

theorem update_from_unregistered_client_is_relayed:
  "run [(\<lambda>w. True, Connection 1 101), (\<lambda>w. True, Connection 2 102),
        (\<lambda>w. True, Connection 3 103), (\<lambda>w. True, Connection 4 104),
        (\<lambda>w. True, Message 1 (Some REGISTER_CONTROLLER)),
        (\<lambda>w. True, Message 2 (Some (REGISTER_REMOTE (Some ''R'') None None None))),
        (\<lambda>w. True, Message 3 (Some (REGISTER_DISPLAY None))),
        (\<lambda>w. True, Message 4 (Some (TIMER_UPDATE ''{}'')))] emptyServer =
   \<lparr>clients =
      [(1, \<lparr>c_id = 101, c_type = Controller, c_permissions = Some [], c_name = UnknownClient,
            c_role = None, c_requestedPermissions = None, c_speakerName = None, c_url = None\<rparr>),
       (2, \<lparr>c_id = 102, c_type = Remote, c_permissions = Some [], c_name = GivenName ''R'',
            c_role = None, c_requestedPermissions = Some [], c_speakerName = None,
            c_url = None\<rparr>),
       (3, \<lparr>c_id = 103, c_type = Display, c_permissions = Some [],
            c_name = DisplayClientName 103, c_role = None, c_requestedPermissions = None,
            c_speakerName = None, c_url = Some ''Unknown''\<rparr>),
       (4, \<lparr>c_id = 104, c_type = Unknown, c_permissions = Some [], c_name = UnknownClient,
            c_role = None, c_requestedPermissions = None, c_speakerName = None, c_url = None\<rparr>)],
    controllerClient = Some 1, remoteClients = [2], displayClients = [3],
    sent = [(2, CONTROLLER_STATUS_FOR True [] None),
            (1, REMOTE_CONNECTED 102 (GivenName ''R'') None None []),
            (1, REMOTE_COUNT 1),
            (1, REQUEST_CURRENT_STATE 103),
            (1, DISPLAY_CONNECTED 103 (DisplayClientName 103) ''Unknown''),
            (2, TIMER_UPDATE_OUT ''{}''), (3, TIMER_UPDATE_OUT ''{}'')]\<rparr>"
  by (simp add: global_defs)

text \<open>
  Claim C1, amended. Global mode keeps no timer or message state, and a \<^verbatim>\<open>TIMER_UPDATE\<close> or
  \<^verbatim>\<open>MESSAGE_UPDATE\<close> frame is fanned out to every open remote and every open display whoever
  sent it (closed ones leave their sets). In room mode a \<^verbatim>\<open>ROOM_STATE_UPDATE\<close> changes nothing
  unless the connection's current user is a host object of type \<^verbatim>\<open>desktop\<close> (a participant
  object has no type) attached to a room that exists; then the update is merged into the
  room's state key by key, the room's \<^verbatim>\<open>lastActivity\<close> is set, and the merged state is sent to
  every participant whose socket is attached and open.
\<close>

theorem state_update_relay:
  "handleMessage opn ws (Some (TIMER_UPDATE d)) s =
     s\<lparr>remoteClients := filter opn (remoteClients s),
       displayClients := filter opn (displayClients s),
       sent := sent s @ map (\<lambda>w. (w, TIMER_UPDATE_OUT d)) (filter opn (remoteClients s))
                      @ map (\<lambda>w. (w, TIMER_UPDATE_OUT d)) (filter opn (displayClients s))\<rparr> \<and>
   handleMessage opn ws (Some (MESSAGE_UPDATE d)) s =
     s\<lparr>remoteClients := filter opn (remoteClients s),
       displayClients := filter opn (displayClients s),
       sent := sent s @ map (\<lambda>w. (w, MESSAGE_UPDATE_OUT d)) (filter opn (remoteClients s))
                      @ map (\<lambda>w. (w, MESSAGE_UPDATE_OUT d)) (filter opn (displayClients s))\<rparr> \<and>
   ((\<forall>h. currentUser c = Some (CurHost h) \<longrightarrow> h_type h \<noteq> ''desktop'') \<longrightarrow>
      handleRoomStateUpdate opn update now (c, rs) = (c, rs)) \<and>
   (\<not> truthy (currentRoom c) \<or> rooms rs (orElse (currentRoom c) []) = None \<longrightarrow>
      handleRoomStateUpdate opn update now (c, rs) = (c, rs)) \<and>
   (currentUser c = Some (CurHost h) \<and> h_type h = ''desktop'' \<and> currentRoom c = Some code \<and>
    code \<noteq> [] \<and> rooms rs code = Some room \<longrightarrow>
      handleRoomStateUpdate opn update now (c, rs) =
        (c, rs\<lparr>rooms := (rooms rs)
                  (code \<mapsto> room\<lparr>r_state := spread (r_state room)
                                              (case update of None \<Rightarrow> [] | Some u \<Rightarrow> u),
                                 r_lastActivity := now\<rparr>),
                rs_sent := rs_sent rs @
                  map (\<lambda>w. (w, ROOM_STATE_UPDATE
                                  (spread (r_state room) (case update of None \<Rightarrow> [] | Some u \<Rightarrow> u))))
                    (List.map_filter
                       (\<lambda>(k, u). case u_ws u of
                                     None \<Rightarrow> None
                                   | Some w \<Rightarrow> if opn w then Some w else None)
                       (r_users room))\<rparr>) \<and>
      map_of (spread (r_state room) (case update of None \<Rightarrow> [] | Some u \<Rightarrow> u)) =
        map_of (r_state room) ++ map_of (rev (case update of None \<Rightarrow> [] | Some u \<Rightarrow> u)))"
proof (intro conjI impI)
  show "handleMessage opn ws (Some (TIMER_UPDATE d)) s =
     s\<lparr>remoteClients := filter opn (remoteClients s),
       displayClients := filter opn (displayClients s),
       sent := sent s @ map (\<lambda>w. (w, TIMER_UPDATE_OUT d)) (filter opn (remoteClients s))
                      @ map (\<lambda>w. (w, TIMER_UPDATE_OUT d)) (filter opn (displayClients s))\<rparr>"
    by (simp add: handleMessage_def broadcastToRemotes_eq broadcastToDisplays_eq)
  show "handleMessage opn ws (Some (MESSAGE_UPDATE d)) s =
     s\<lparr>remoteClients := filter opn (remoteClients s),
       displayClients := filter opn (displayClients s),
       sent := sent s @ map (\<lambda>w. (w, MESSAGE_UPDATE_OUT d)) (filter opn (remoteClients s))
                      @ map (\<lambda>w. (w, MESSAGE_UPDATE_OUT d)) (filter opn (displayClients s))\<rparr>"
    by (simp add: handleMessage_def broadcastToRemotes_eq broadcastToDisplays_eq)
next
  assume "\<forall>h. currentUser c = Some (CurHost h) \<longrightarrow> h_type h \<noteq> ''desktop''"
  then show "handleRoomStateUpdate opn update now (c, rs) = (c, rs)"
    by (cases "currentUser c"; cases "the (currentUser c)")
       (auto simp: handleRoomStateUpdate_def)
next
  assume "\<not> truthy (currentRoom c) \<or> rooms rs (orElse (currentRoom c) []) = None"
  then show "handleRoomStateUpdate opn update now (c, rs) = (c, rs)"
    by (auto simp: handleRoomStateUpdate_def split: option.splits)
next
  assume a: "currentUser c = Some (CurHost h) \<and> h_type h = ''desktop'' \<and> currentRoom c = Some code \<and>
    code \<noteq> [] \<and> rooms rs code = Some room"
  then show "handleRoomStateUpdate opn update now (c, rs) =
        (c, rs\<lparr>rooms := (rooms rs)
                  (code \<mapsto> room\<lparr>r_state := spread (r_state room)
                                              (case update of None \<Rightarrow> [] | Some u \<Rightarrow> u),
                                 r_lastActivity := now\<rparr>),
                rs_sent := rs_sent rs @
                  map (\<lambda>w. (w, ROOM_STATE_UPDATE
                                  (spread (r_state room) (case update of None \<Rightarrow> [] | Some u \<Rightarrow> u))))
                    (List.map_filter
                       (\<lambda>(k, u). case u_ws u of
                                     None \<Rightarrow> None
                                   | Some w \<Rightarrow> if opn w then Some w else None)
                       (r_users room))\<rparr>)"
    by (simp add: handleRoomStateUpdate_def truthy_def orElse_def Let_def broadcastToRoom_def
        roomLoop_None)
  show "map_of (spread (r_state room) (case update of None \<Rightarrow> [] | Some u \<Rightarrow> u)) =
        map_of (r_state room) ++ map_of (rev (case update of None \<Rightarrow> [] | Some u \<Rightarrow> u))"
    by (rule spread_map_of)
qed

theorem state_update_relay_witness:
  "currentUser hostConn = Some (CurHost hostAB) \<and> h_type hostAB = ''desktop'' \<and>
   rooms storeAB ''AB12CD'' = Some roomAB \<and>
   handleRoomStateUpdate (\<lambda>w. True) (Some [(''timer'', JData ''5'')]) 40 (hostConn, storeAB) =
     (hostConn,
      storeAB\<lparr>rooms := [''AB12CD'' \<mapsto>
                  roomAB\<lparr>r_state := [(''timer'', JData ''5''), (''message'', JNull),
                                       (''isConnected'', JBool True)],
                         r_lastActivity := 40\<rparr>],
              rs_sent := [(2, ROOM_STATE_UPDATE
                                [(''timer'', JData ''5''), (''message'', JNull),
                                 (''isConnected'', JBool True)])]\<rparr>) \<and>
   currentUser userConn = Some (CurUser userP) \<and>
   handleRoomStateUpdate (\<lambda>w. True) (Some [(''timer'', JData ''5'')]) 40 (userConn, storeAB) =
     (userConn, storeAB) \<and>
   rooms emptyRoomServer ''AB12CD'' = None \<and>
   handleRoomStateUpdate (\<lambda>w. True) (Some [(''timer'', JData ''5'')]) 40
     (hostConn, emptyRoomServer) = (hostConn, emptyRoomServer) \<and>
   handleMessage (\<lambda>w. w \<noteq> 3) 1 (Some (TIMER_UPDATE ''{}''))
     (relayAB\<lparr>remoteClients := [2, 3], displayClients := [4]\<rparr>) =
     relayAB\<lparr>remoteClients := [2], displayClients := [4],
             sent := [(2, TIMER_UPDATE_OUT ''{}''), (4, TIMER_UPDATE_OUT ''{}'')]\<rparr>"
proof -
  note t = state_update_relay
  have h: "currentUser hostConn = Some (CurHost hostAB) \<and> h_type hostAB = ''desktop'' \<and>
           currentRoom hostConn = Some ''AB12CD'' \<and> ''AB12CD'' \<noteq> [] \<and>
           rooms storeAB ''AB12CD'' = Some roomAB"
    by (simp add: example_defs hostConn_def)
  from t [where c = hostConn and rs = storeAB and h = hostAB and code = "''AB12CD''"
            and room = roomAB and opn = "\<lambda>w. True" and now = 40
            and update = "Some [(''timer'', JData ''5'')]"] h
  have 1: "handleRoomStateUpdate (\<lambda>w. True) (Some [(''timer'', JData ''5'')]) 40 (hostConn, storeAB) =
     (hostConn,
      storeAB\<lparr>rooms := [''AB12CD'' \<mapsto>
                  roomAB\<lparr>r_state := [(''timer'', JData ''5''), (''message'', JNull),
                                       (''isConnected'', JBool True)],
                         r_lastActivity := 40\<rparr>],
              rs_sent := [(2, ROOM_STATE_UPDATE
                                [(''timer'', JData ''5''), (''message'', JNull),
                                 (''isConnected'', JBool True)])]\<rparr>)"
    by (simp add: example_defs hostConn_def spread_def List.map_filter_simps)
  have u: "\<forall>h. currentUser userConn = Some (CurHost h) \<longrightarrow> h_type h \<noteq> ''desktop''"
    by (simp add: userConn_def)
  from t [where c = userConn and rs = storeAB and opn = "\<lambda>w. True" and now = 40
            and update = "Some [(''timer'', JData ''5'')]"] u
  have 2: "handleRoomStateUpdate (\<lambda>w. True) (Some [(''timer'', JData ''5'')]) 40 (userConn, storeAB) =
     (userConn, storeAB)"
    by simp
  have g: "\<not> truthy (currentRoom hostConn) \<or>
           rooms emptyRoomServer (orElse (currentRoom hostConn) []) = None"
    by (simp add: emptyRoomServer_def)
  from t [where c = hostConn and rs = emptyRoomServer and opn = "\<lambda>w. True" and now = 40
            and update = "Some [(''timer'', JData ''5'')]"] g
  have 3: "handleRoomStateUpdate (\<lambda>w. True) (Some [(''timer'', JData ''5'')]) 40
     (hostConn, emptyRoomServer) = (hostConn, emptyRoomServer)"
    by simp
  from t [where opn = "\<lambda>w. w \<noteq> 3" and ws = 1 and d = "''{}''"
            and s = "relayAB\<lparr>remoteClients := [2, 3], displayClients := [4]\<rparr>"]
  have 4: "handleMessage (\<lambda>w. w \<noteq> 3) 1 (Some (TIMER_UPDATE ''{}''))
     (relayAB\<lparr>remoteClients := [2, 3], displayClients := [4]\<rparr>) =
     relayAB\<lparr>remoteClients := [2], displayClients := [4],
             sent := [(2, TIMER_UPDATE_OUT ''{}''), (4, TIMER_UPDATE_OUT ''{}'')]\<rparr>"
    by (simp add: relayAB_def)
  from h 1 2 3 4 show ?thesis
    by (simp add: userConn_def emptyRoomServer_def)
qed

section \<open>Broadcasts\<close>

text \<open>
  Claim C6 as stated fails for \<^verbatim>\<open>broadcastToRoom\<close>. A second participant joins room
  \<^verbatim>\<open>AB12CD\<close> on socket 3; a broadcast then finds socket 2 open and socket 3 closed. The
  message goes to socket 2, and the participant of the closed socket is still a member of
  the room afterwards.
\<close>

theorem broadcastToRoom_keeps_closed_participant:
  "map_option (map fst \<circ> r_users)
     (rooms (broadcastToRoom (\<lambda>w. w \<noteq> 3) ''AB12CD'' HOST_DISCONNECTED None
               (snd (onJoinRoomMessage (\<lambda>w. True) 3 ''AB12CD'' (Some ''web'') (Some (Some ''Q'', None))
                       ''user-2'' 35 (noConn, storeAB)))) ''AB12CD'') =
     Some [''user-1'', ''user-2''] \<and>
   rs_sent (broadcastToRoom (\<lambda>w. w \<noteq> 3) ''AB12CD'' HOST_DISCONNECTED None
              (snd (onJoinRoomMessage (\<lambda>w. True) 3 ''AB12CD'' (Some ''web'') (Some (Some ''Q'', None))
                      ''user-2'' 35 (noConn, storeAB)))) =
     rs_sent (snd (onJoinRoomMessage (\<lambda>w. True) 3 ''AB12CD'' (Some ''web'') (Some (Some ''Q'', None))
                     ''user-2'' 35 (noConn, storeAB))) @ [(2, HOST_DISCONNECTED)]"
  by (simp add: room_defs example_defs)

text \<open>
  Claim C6, amended. \<^verbatim>\<open>broadcastToRemotes\<close> and \<^verbatim>\<open>broadcastToDisplays\<close> send the message to
  every member whose socket is open, in insertion order, and remove every other member from
  the set; nothing else changes. \<^verbatim>\<open>broadcastToRoom\<close> sends the message to every participant
  of the room, other than the excluded id, whose socket is attached and open, and changes
  nothing else: the room keeps all its participants, closed ones too; for an unknown room
  code it does nothing. The three functions have no error result: none of them has a
  \<^verbatim>\<open>throw\<close>, and every send is guarded by the test of \<^verbatim>\<open>readyState\<close>.
\<close>

theorem broadcast_reaches_open_connections:
  "broadcastToRemotes opn m s =
     s\<lparr>remoteClients := filter opn (remoteClients s),
       sent := sent s @ map (\<lambda>w. (w, m)) (filter opn (remoteClients s))\<rparr> \<and>
   broadcastToDisplays opn m s =
     s\<lparr>displayClients := filter opn (displayClients s),
       sent := sent s @ map (\<lambda>w. (w, m)) (filter opn (displayClients s))\<rparr> \<and>
   broadcastToRoom opn roomCode rm excludeUserId rs =
     rs\<lparr>rs_sent :=
          (case rooms rs roomCode of
             None \<Rightarrow> rs_sent rs
           | Some room \<Rightarrow>
               rs_sent rs @
               map (\<lambda>w. (w, rm))
                 (List.map_filter
                    (\<lambda>(userId, user).
                        case u_ws user of
                          None \<Rightarrow> None
                        | Some w \<Rightarrow> if Some userId \<noteq> excludeUserId \<and> opn w then Some w else None)
                    (r_users room)))\<rparr>"
  by (simp add: broadcastToRemotes_eq broadcastToDisplays_eq broadcastToRoom_def roomLoop_eq
      split: option.splits)

theorem broadcast_reaches_open_connections_witness:
  "broadcastToRemotes (\<lambda>w. w \<noteq> 3)  (CONTROLLER_STATUS True)
     \<lparr>clients = [], controllerClient = None, remoteClients = [2, 3, 4], displayClients = [5],
      sent = []\<rparr> =
     \<lparr>clients = [], controllerClient = None, remoteClients = [2, 4], displayClients = [5],
      sent = [(2, CONTROLLER_STATUS True), (4, CONTROLLER_STATUS True)]\<rparr> \<and>
   broadcastToRoom (\<lambda>w. True) ''AB12CD'' HOST_DISCONNECTED None storeAB =
     storeAB\<lparr>rs_sent := [(2, HOST_DISCONNECTED)]\<rparr> \<and>
   broadcastToRoom (\<lambda>w. w \<noteq> 3) ''AB12CD'' HOST_DISCONNECTED (Some ''user-1'') storeAB = storeAB"
  using broadcast_reaches_open_connections
          [where opn = "\<lambda>w. w \<noteq> 3" and m = "CONTROLLER_STATUS True"
             and s = "\<lparr>clients = [], controllerClient = None, remoteClients = [2, 3, 4],
                       displayClients = [5], sent = []\<rparr>"
             and roomCode = "''AB12CD''" and rm = HOST_DISCONNECTED
             and excludeUserId = "Some ''user-1''" and rs = storeAB]
        broadcast_reaches_open_connections
          [where opn = "\<lambda>w. True" and roomCode = "''AB12CD''" and rm = HOST_DISCONNECTED
             and excludeUserId = None and rs = storeAB]
  by (simp add: example_defs List.map_filter_simps)

section \<open>Leaving a room\<close>






section \<open>Joining a room\<close>

lemma length_crowd: "length crowd = 50"
  by (simp add: crowd_def)

lemma newUser_not_in_crowd: "''user-new'' \<notin> fst ` set crowd"
proof
  assume "''user-new'' \<in> fst ` set crowd"
  then obtain n where "''user-new'' = CHR ''u'' # replicate n CHR ''x''"
    by (auto simp: crowd_def)
  then show False by (cases n) auto
qed

lemma update_fresh:
  "k \<notin> fst ` set al \<Longrightarrow> AList.update k v al = al @ [(k, v)]"
  by (induction al) auto

lemma length_update_fresh:
  "k \<notin> fst ` set al \<Longrightarrow> length (AList.update k v al) = Suc (length al)"
  by (simp add: update_fresh)

text \<open>
  Claim C7. \<^verbatim>\<open>joinRoom\<close> fails with \<^verbatim>\<open>Room not found\<close> for an unknown code and with
  \<^verbatim>\<open>Room is full\<close> when the room's user map holds at least \<^verbatim>\<open>settings.maxUsers\<close> entries;
  otherwise it returns the room with the participant stored under its id (the other
  entries as they were) and \<^verbatim>\<open>lastActivity\<close> set to the clock, every other field of the room
  unchanged, and the store holds that room under the code. A room made by \<^verbatim>\<open>createRoom\<close> has
  \<^verbatim>\<open>maxUsers\<close> 50.
\<close>

theorem joinRoom_outcomes:
  "(rooms s roomCode = None \<longrightarrow>
      joinRoom roomCode userInfo now s = Inl (Error ''Room not found'')) \<and>
   (rooms s roomCode = Some room \<and> length (r_users room) \<ge> maxUsers (r_settings room) \<longrightarrow>
      joinRoom roomCode userInfo now s = Inl (Error ''Room is full'')) \<and>
   (rooms s roomCode = Some room \<and> length (r_users room) < maxUsers (r_settings room) \<longrightarrow>
      joinRoom roomCode userInfo now s =
        Inr (room\<lparr>r_users := AList.update (u_id userInfo) userInfo (r_users room),
                  r_lastActivity := now\<rparr>,
             s\<lparr>rooms := (rooms s)
                  (roomCode \<mapsto> room\<lparr>r_users := AList.update (u_id userInfo) userInfo (r_users room),
                                     r_lastActivity := now\<rparr>)\<rparr>) \<and>
      map_of (AList.update (u_id userInfo) userInfo (r_users room)) (u_id userInfo) = Some userInfo \<and>
      (\<forall>k. k \<noteq> u_id userInfo \<longrightarrow>
         map_of (AList.update (u_id userInfo) userInfo (r_users room)) k = map_of (r_users room) k)) \<and>
   maxUsers (r_settings (fst (createRoom hostInfo customRoomCode rnd created s))) = 50"
  by (simp add: joinRoom_def Let_def update_conv' createRoom_def MAX_USERS_PER_ROOM_def)

theorem joinRoom_outcomes_witness:
  "joinRoom ''ZZZZZZ'' newUser 70 storeAB = Inl (Error ''Room not found'') \<and>
   joinRoom ''AB12CD'' newUser 70 fullStore = Inl (Error ''Room is full'') \<and>
   joinRoom ''AB12CD'' newUser 70 storeAB =
     Inr (roomAB\<lparr>r_users := [(''user-1'', userP), (''user-new'', newUser)],
                 r_lastActivity := 70\<rparr>,
          storeAB\<lparr>rooms := [''AB12CD'' \<mapsto>
             roomAB\<lparr>r_users := [(''user-1'', userP), (''user-new'', newUser)],
                    r_lastActivity := 70\<rparr>]\<rparr>)"
  using joinRoom_outcomes [of storeAB "''ZZZZZZ''" newUser 70 roomAB]
        joinRoom_outcomes [of fullStore "''AB12CD''" newUser 70 "roomAB\<lparr>r_users := crowd\<rparr>"]
        joinRoom_outcomes [of storeAB "''AB12CD''" newUser 70 roomAB]
  by (simp add: example_defs fullStore_def newUser_def length_crowd)

text \<open>
  Claim C9 as stated fails. A \<^verbatim>\<open>JOIN_ROOM\<close> frame for the existing room \<^verbatim>\<open>AB12CD\<close> with
  \<^verbatim>\<open>clientType\<close> \<^verbatim>\<open>web\<close> and no \<^verbatim>\<open>clientInfo\<close> makes \<^verbatim>\<open>handleJoinRoom\<close> throw at
  \<^verbatim>\<open>clientInfo.name\<close>: the sender is answered \<^verbatim>\<open>ERROR\<close> \<^verbatim>\<open>Invalid message format\<close>, not
  \<^verbatim>\<open>ROOM_JOINED\<close>, nobody is added to the room and the connection stays unattached.
\<close>

theorem join_frame_without_clientInfo_adds_nobody:
  "rooms storeAB ''AB12CD'' = Some roomAB \<and>
   handleJoinRoom (\<lambda>w. True) 3 ''AB12CD'' (Some ''web'') None ''user-2'' 35 (noConn, storeAB) =
     Inl TypeError \<and>
   onJoinRoomMessage (\<lambda>w. True) 3 ''AB12CD'' (Some ''web'') None ''user-2'' 35 (noConn, storeAB) =
     (noConn, storeAB\<lparr>rs_sent := [(3, ERROR ''Invalid message format'')]\<rparr>)"
  by (simp add: room_defs example_defs)

text \<open>
  Claim C9, amended. A \<^verbatim>\<open>JOIN_ROOM\<close> frame whose \<^verbatim>\<open>clientType\<close> is not \<^verbatim>\<open>host\<close>, whose room
  exists and which carries a \<^verbatim>\<open>clientInfo\<close> always stores the participant under the drawn
  id, tells the host if its socket is open, and replies \<^verbatim>\<open>ROOM_JOINED\<close> to the sender,
  whatever the size of the room: with a fresh id the room grows by one, so a room that
  already holds \<^verbatim>\<open>maxUsers\<close> participants ends above the maximum, where \<^verbatim>\<open>joinRoom\<close> on the
  same store fails with \<^verbatim>\<open>Room is full\<close>. Such a frame without a \<^verbatim>\<open>clientInfo\<close> is answered
  \<^verbatim>\<open>ERROR\<close> \<^verbatim>\<open>Invalid message format\<close> and changes nothing else.
\<close>

theorem websocket_join_has_no_capacity_check:
  assumes "rooms s roomCode = Some room"
    and "clientType \<noteq> Some ''host''"
    and "userInfo = \<lparr>u_id = uuid, u_name = orElse clientName ''Anonymous User'',
                      u_role = orElse clientRole ''viewer'', u_joinedAt = now, u_ws = Some ws\<rparr>"
    and "room' = room\<lparr>r_users := AList.update uuid userInfo (r_users room),
                       r_lastActivity := now\<rparr>"
  shows "onJoinRoomMessage opn ws roomCode clientType (Some (clientName, clientRole)) uuid now
           (c, s) =
           (\<lparr>currentUser = Some (CurUser userInfo), currentRoom = Some roomCode\<rparr>,
            s\<lparr>rooms := (rooms s)(roomCode \<mapsto> room'),
              rs_sent := rs_sent s @
                (case h_ws (r_host room) of
                   None \<Rightarrow> []
                 | Some w \<Rightarrow> if opn w then [(w, ROOM_CLIENT_JOINED userInfo)] else []) @
                [(ws, ROOM_JOINED roomCode (map snd (r_users room')) (r_code room)
                        (r_settings room) (length (r_users room')))]\<rparr>) \<and>
         handleJoinRoom opn ws roomCode clientType (Some (clientName, clientRole)) uuid now (c, s) =
           Inr (onJoinRoomMessage opn ws roomCode clientType (Some (clientName, clientRole)) uuid
                  now (c, s)) \<and>
         map_of (r_users room') uuid = Some userInfo \<and>
         (uuid \<notin> fst ` set (r_users room) \<longrightarrow>
            length (r_users room') = Suc (length (r_users room))) \<and>
         (uuid \<notin> fst ` set (r_users room) \<and>
          length (r_users room) \<ge> maxUsers (r_settings room) \<longrightarrow>
            length (r_users room') > maxUsers (r_settings room') \<and>
            joinRoom roomCode userInfo now s = Inl (Error ''Room is full'')) \<and>
         onJoinRoomMessage opn ws roomCode clientType None uuid now (c, s) =
           (c, s\<lparr>rs_sent := rs_sent s @ [(ws, ERROR ''Invalid message format'')]\<rparr>)"
proof (intro conjI impI)
  show "onJoinRoomMessage opn ws roomCode clientType (Some (clientName, clientRole)) uuid now
           (c, s) =
           (\<lparr>currentUser = Some (CurUser userInfo), currentRoom = Some roomCode\<rparr>,
            s\<lparr>rooms := (rooms s)(roomCode \<mapsto> room'),
              rs_sent := rs_sent s @
                (case h_ws (r_host room) of
                   None \<Rightarrow> []
                 | Some w \<Rightarrow> if opn w then [(w, ROOM_CLIENT_JOINED userInfo)] else []) @
                [(ws, ROOM_JOINED roomCode (map snd (r_users room')) (r_code room)
                        (r_settings room) (length (r_users room')))]\<rparr>)"
    using assms
    by (simp add: onJoinRoomMessage_def handleJoinRoom_def Let_def sendToHost_def rsend_def
        split: option.splits)
  show "handleJoinRoom opn ws roomCode clientType (Some (clientName, clientRole)) uuid now (c, s) =
           Inr (onJoinRoomMessage opn ws roomCode clientType (Some (clientName, clientRole)) uuid
                  now (c, s))"
    using assms by (simp add: onJoinRoomMessage_def handleJoinRoom_def Let_def)
  show "map_of (r_users room') uuid = Some userInfo"
    using assms by (simp add: update_conv')
  show "onJoinRoomMessage opn ws roomCode clientType None uuid now (c, s) =
           (c, s\<lparr>rs_sent := rs_sent s @ [(ws, ERROR ''Invalid message format'')]\<rparr>)"
    using assms by (simp add: onJoinRoomMessage_def handleJoinRoom_def rsend_def)
next
  assume "uuid \<notin> fst ` set (r_users room)"
  then show "length (r_users room') = Suc (length (r_users room))"
    using assms by (simp add: length_update_fresh)
next
  assume a: "uuid \<notin> fst ` set (r_users room) \<and> length (r_users room) \<ge> maxUsers (r_settings room)"
  then show "length (r_users room') > maxUsers (r_settings room')"
    using assms by (simp add: length_update_fresh)
  from a show "joinRoom roomCode userInfo now s = Inl (Error ''Room is full'')"
    using assms by (simp add: joinRoom_def)
qed

theorem websocket_join_has_no_capacity_check_witness:
  "rooms fullStore ''AB12CD'' = Some (roomAB\<lparr>r_users := crowd\<rparr>) \<and>
   length crowd = 50 \<and> ''user-new'' \<notin> fst ` set crowd \<and>
   map_option (length \<circ> r_users)
     (rooms (snd (onJoinRoomMessage (\<lambda>w. True) 7 ''AB12CD'' (Some ''web'') (Some (Some ''N'', None))
                    ''user-new'' 70 (noConn, fullStore))) ''AB12CD'') = Some 51 \<and>
   map_option (\<lambda>r. maxUsers (r_settings r))
     (rooms (snd (onJoinRoomMessage (\<lambda>w. True) 7 ''AB12CD'' (Some ''web'') (Some (Some ''N'', None))
                    ''user-new'' 70 (noConn, fullStore))) ''AB12CD'') = Some 50 \<and>
   last (rs_sent (snd (onJoinRoomMessage (\<lambda>w. True) 7 ''AB12CD'' (Some ''web'')
                         (Some (Some ''N'', None)) ''user-new'' 70 (noConn, fullStore)))) =
     (7, ROOM_JOINED ''AB12CD'' (map snd crowd @ [newUser]) ''AB12CD'' (r_settings roomAB) 51) \<and>
   joinRoom ''AB12CD'' newUser 70 fullStore = Inl (Error ''Room is full'') \<and>
   onJoinRoomMessage (\<lambda>w. True) 7 ''AB12CD'' (Some ''web'') None ''user-new'' 70
     (noConn, fullStore) =
     (noConn, fullStore\<lparr>rs_sent := [(7, ERROR ''Invalid message format'')]\<rparr>)"
proof -
  have r: "rooms fullStore ''AB12CD'' = Some (roomAB\<lparr>r_users := crowd\<rparr>)"
    by (simp add: fullStore_def)
  have t: "Some ''web'' \<noteq> Some ''host''"
    by simp
  have u: "newUser = \<lparr>u_id = ''user-new'', u_name = orElse (Some ''N'') ''Anonymous User'',
                       u_role = orElse None ''viewer'', u_joinedAt = 70, u_ws = Some 7\<rparr>"
    by (simp add: newUser_def orElse_def)
  have upd: "AList.update ''user-new'' newUser crowd = crowd @ [(''user-new'', newUser)]"
    using newUser_not_in_crowd by (rule update_fresh)
  from websocket_join_has_no_capacity_check [OF r t u refl, of "\<lambda>w. True" noConn]
       newUser_not_in_crowd length_crowd upd r
  show ?thesis
    by (simp add: roomAB_def hostAB_def fullStore_def)
qed

section \<open>Creating a room\<close>

text \<open>
  The loop's equation unfolds without end under the simplifier, so it is applied by hand.
\<close>

declare codeLoop.simps [simp del]

lemma generateRoomCode_nonempty: "generateRoomCode rnd \<noteq> []"
  by (cases rnd) (simp add: hexByte_def)

lemma length_generateRoomCode: "length (generateRoomCode rnd) = 6"
  by (cases rnd) (simp add: hexByte_def)

lemma orElse_nonempty: "d \<noteq> [] \<Longrightarrow> orElse v d \<noteq> []"
  by (simp add: orElse_def split: option.splits)

lemma orElse_Some: "x \<noteq> [] \<Longrightarrow> orElse (Some x) d = x"
  by (simp add: orElse_def)

lemma codeLoop_bound:
  "attempts < 10 \<Longrightarrow> snd (codeLoop draws owners attempts) \<le> 10 \<and>
     attempts < snd (codeLoop draws owners attempts)"
proof (induction draws owners attempts rule: codeLoop.induct)
  case (1 draws owners attempts)
  show ?case
  proof (cases "owners (generateRoomCode (draws attempts)) \<noteq> None \<and> attempts + 1 < 10")
    case True
    with "1.IH"[OF refl refl True] have
      "snd (codeLoop draws owners (attempts + 1)) \<le> 10 \<and>
       attempts + 1 < snd (codeLoop draws owners (attempts + 1))"
      by simp
    with True show ?thesis
      by (subst (1 2) codeLoop.simps) (simp add: Let_def)
  next
    case False
    with "1.prems" show ?thesis
      by (subst (1 2) codeLoop.simps) (auto simp: Let_def)
  qed
qed

lemma codeLoop_fresh:
  "codeLoop draws owners attempts = (roomCode, n) \<Longrightarrow> attempts < 10 \<Longrightarrow> n < 10 \<Longrightarrow>
     owners roomCode = None \<and> roomCode = generateRoomCode (draws (n - 1))"
proof (induction draws owners attempts rule: codeLoop.induct)
  case (1 draws owners attempts)
  show ?case
  proof (cases "owners (generateRoomCode (draws attempts)) \<noteq> None \<and> attempts + 1 < 10")
    case True
    with "1.prems"(1) have "codeLoop draws owners (attempts + 1) = (roomCode, n)"
      by (subst (asm) codeLoop.simps) (simp add: Let_def)
    from "1.IH"[OF refl refl True this _ "1.prems"(3)] True show ?thesis by blast
  next
    case False
    with "1.prems"(1) have "roomCode = generateRoomCode (draws attempts) \<and> n = attempts + 1"
      by (subst (asm) codeLoop.simps) (auto simp: Let_def)
    with False "1.prems" show ?thesis by auto
  qed
qed

lemma codeLoop_exhausted:
  "attempts < 10 \<Longrightarrow>
   (\<forall>i. attempts \<le> i \<and> i < 10 \<longrightarrow> owners (generateRoomCode (draws i)) \<noteq> None) \<Longrightarrow>
   snd (codeLoop draws owners attempts) = 10"
proof (induction draws owners attempts rule: codeLoop.induct)
  case (1 draws owners attempts)
  from "1.prems" have live: "owners (generateRoomCode (draws attempts)) \<noteq> None" by auto
  show ?case
  proof (cases "attempts + 1 < 10")
    case True
    with live "1.IH"[OF refl refl] "1.prems"(2) have "snd (codeLoop draws owners (attempts + 1)) = 10"
      by simp
    with True live show ?thesis
      by (subst codeLoop.simps) (simp add: Let_def)
  next
    case False
    with "1.prems"(1) have "attempts + 1 = 10" by simp
    with live show ?thesis
      by (subst codeLoop.simps) (simp add: Let_def)
  qed
qed

text \<open>
  Claim C4, evaluated on the code. Room \<^verbatim>\<open>AB12CD\<close> is live and has a participant.
  \<^verbatim>\<open>POST /api/rooms\<close> calls \<^verbatim>\<open>createRoom\<close> without a desired code; when the three random bytes
  are \<^verbatim>\<open>AB 12 CD\<close> the generated code is the live one, and the request succeeds with a room
  that carries that code and replaces the live room in the store (its participant is gone):
  no check, no retry, no error. On the same draw the sibling \<^verbatim>\<open>POST /api/rooms/create\<close>
  answers 400 and leaves the store alone, and the loop of the authentication server, whose
  first draw \<^verbatim>\<open>000000\<close> is live, draws again and returns \<^verbatim>\<open>010000\<close>.
\<close>

theorem post_rooms_replaces_a_live_room:
  "rooms storeAB ''AB12CD'' = Some roomAB \<and> r_users roomAB = [(''user-1'', userP)] \<and>
   generateRoomCode (171, 18, 205) = ''AB12CD'' \<and>
   postRooms None None ''host-2'' (171, 18, 205) 80 storeAB =
     (Ok (roomAB\<lparr>r_host := \<lparr>h_oid = 1, h_id = ''host-2'', h_name = ''Room Host'',
                                h_type = ''desktop'', h_joinedAt = 80, h_ws = None\<rparr>,
                    r_users := [], r_createdAt := 80, r_lastActivity := 80,
                    r_state := [(''timer'', JNull), (''message'', JNull),
                                (''isConnected'', JBool False)]\<rparr>),
      \<lparr>rooms = [''AB12CD'' \<mapsto>
         roomAB\<lparr>r_host := \<lparr>h_oid = 1, h_id = ''host-2'', h_name = ''Room Host'',
                             h_type = ''desktop'', h_joinedAt = 80, h_ws = None\<rparr>,
                r_users := [], r_createdAt := 80, r_lastActivity := 80,
                r_state := [(''timer'', JNull), (''message'', JNull),
                            (''isConnected'', JBool False)]\<rparr>],
       nextOid = 2, rs_sent = []\<rparr>) \<and>
   postRoomsCreate None None None ''host-2'' (171, 18, 205) (0, 0, 0) 80 storeAB =
     (Status 400 ''Room code already exists'', storeAB) \<and>
   roomOwners authA (generateRoomCode (0, 0, 0)) = Some ''user_1'' \<and>
   codeLoop (\<lambda>i. (i, 0, 0)) (roomOwners authA) 0 = (''010000'', 2)"
proof -
  have "codeLoop (\<lambda>i. (i, 0, 0)) (roomOwners authA) 0 = (''010000'', 2)"
    by code_simp
  then show ?thesis
    by (simp add: example_defs authA_def postRooms_def postRoomsCreate_def createRoom_def
        orElse_def hexByte_def hexDigit_def MAX_USERS_PER_ROOM_def Let_def)
qed

text \<open>
  The sibling paths in general. \<^verbatim>\<open>POST /api/rooms/create\<close> of the room server checks the
  code before \<^verbatim>\<open>createRoom\<close> runs: when the code it settles on (the requested code, else one
  generated code) is live, it answers 400 \<^verbatim>\<open>Room code already exists\<close> and the store is
  unchanged; otherwise the room is stored under exactly that code, which was not in the
  store, and every other room stays. The loop of the authentication server draws at most
  ten codes; a code it returns is one of the first nine draws and was not in
  \<^verbatim>\<open>roomOwners\<close>; when all ten draws are live the request fails with
  \<^verbatim>\<open>Failed to generate unique room code\<close> and the server is unchanged.
\<close>

theorem room_creation_rejects_live_codes:
  "(rooms s (orElse roomCode (generateRoomCode rnd)) \<noteq> None \<longrightarrow>
      postRoomsCreate roomCode hostType hostName uuid rnd rnd' now s =
        (Status 400 ''Room code already exists'', s)) \<and>
   (rooms s (orElse roomCode (generateRoomCode rnd)) = None \<longrightarrow>
      (\<exists>room. postRoomsCreate roomCode hostType hostName uuid rnd rnd' now s =
                (Ok room, s\<lparr>nextOid := Suc (nextOid s),
                             rooms := (rooms s)(orElse roomCode (generateRoomCode rnd) \<mapsto> room)\<rparr>) \<and>
              r_code room = orElse roomCode (generateRoomCode rnd) \<and> r_users room = [])) \<and>
   snd (codeLoop draws (roomOwners a) 0) \<le> 10 \<and>
   (authCreateRoom draws email userId a = (Ok code, a') \<longrightarrow>
      roomOwners a code = None \<and> roomOwners a' = (roomOwners a)(code \<mapsto> userId) \<and>
      (\<exists>i<9. code = generateRoomCode (draws i))) \<and>
   (au_users a email \<noteq> None \<and>
    (\<forall>i<10. roomOwners a (generateRoomCode (draws i)) \<noteq> None) \<longrightarrow>
      authCreateRoom draws email userId a =
        (Status 500 ''Failed to generate unique room code'', a))"
proof (intro conjI impI)
  assume "rooms s (orElse roomCode (generateRoomCode rnd)) \<noteq> None"
  then show "postRoomsCreate roomCode hostType hostName uuid rnd rnd' now s =
        (Status 400 ''Room code already exists'', s)"
    by (simp add: postRoomsCreate_def Let_def)
next
  assume "rooms s (orElse roomCode (generateRoomCode rnd)) = None"
  moreover have "orElse roomCode (generateRoomCode rnd) \<noteq> []"
    by (simp add: orElse_nonempty generateRoomCode_nonempty)
  ultimately show "\<exists>room. postRoomsCreate roomCode hostType hostName uuid rnd rnd' now s =
                (Ok room, s\<lparr>nextOid := Suc (nextOid s),
                             rooms := (rooms s)(orElse roomCode (generateRoomCode rnd) \<mapsto> room)\<rparr>) \<and>
              r_code room = orElse roomCode (generateRoomCode rnd) \<and> r_users room = []"
    by (simp add: postRoomsCreate_def createRoom_def Let_def orElse_Some)
next
  show "snd (codeLoop draws (roomOwners a) 0) \<le> 10"
    using codeLoop_bound[of 0 draws "roomOwners a"] by simp
next
  assume ok: "authCreateRoom draws email userId a = (Ok code, a')"
  obtain c n where loop: "codeLoop draws (roomOwners a) 0 = (c, n)"
    by (cases "codeLoop draws (roomOwners a) 0")
  from ok loop have n: "n < 10" and c: "c = code"
    and a': "a' = a\<lparr>roomOwners := (roomOwners a)(code \<mapsto> userId),
                     au_users := (au_users a)
                       (email \<mapsto> (the (au_users a email))\<lparr>au_rooms := au_rooms (the (au_users a email)) @ [code]\<rparr>)\<rparr>"
    by (auto simp: authCreateRoom_def split: option.splits if_splits)
  from codeLoop_fresh[OF loop _ n] c
  have fresh: "roomOwners a code = None" and gen: "code = generateRoomCode (draws (n - 1))"
    by auto
  from codeLoop_bound[of 0 draws "roomOwners a"] loop have "0 < n" by simp
  with n have "n - 1 < 9" by simp
  from fresh show "roomOwners a code = None" .
  from a' show "roomOwners a' = (roomOwners a)(code \<mapsto> userId)" by simp
  from gen \<open>n - 1 < 9\<close> show "\<exists>i<9. code = generateRoomCode (draws i)" by blast
next
  assume h: "au_users a email \<noteq> None \<and> (\<forall>i<10. roomOwners a (generateRoomCode (draws i)) \<noteq> None)"
  then have "snd (codeLoop draws (roomOwners a) 0) = 10"
    by (intro codeLoop_exhausted) auto
  with h show "authCreateRoom draws email userId a =
        (Status 500 ''Failed to generate unique room code'', a)"
    by (auto simp: authCreateRoom_def split: option.splits prod.splits)
qed

theorem room_creation_rejects_live_codes_witness:
  "rooms storeAB ''AB12CD'' \<noteq> None \<and>
   postRoomsCreate (Some ''AB12CD'') None None ''host-2'' (0, 0, 0) (0, 0, 0) 80 storeAB =
     (Status 400 ''Room code already exists'', storeAB) \<and>
   generateRoomCode (171, 18, 205) = ''AB12CD'' \<and>
   postRoomsCreate None None None ''host-2'' (171, 18, 205) (0, 0, 0) 80 storeAB =
     (Status 400 ''Room code already exists'', storeAB) \<and>
   rooms storeAB (generateRoomCode (239, 0, 1)) = None \<and>
   fst (postRoomsCreate None None None ''host-2'' (239, 0, 1) (0, 0, 0) 80 storeAB) =
     Ok \<lparr>r_code = ''EF0001'',
         r_host = \<lparr>h_oid = 1, h_id = ''host-2'', h_name = ''Desktop App'', h_type = ''desktop'',
                   h_joinedAt = 80, h_ws = None\<rparr>,
         r_users = [], r_createdAt = 80, r_lastActivity = 80,
         r_settings = r_settings roomAB,
         r_state = [(''timer'', JNull), (''message'', JNull), (''isConnected'', JBool False)]\<rparr> \<and>
   authCreateRoom (\<lambda>i. (i, 0, 0)) ''a@b.c'' ''user_1'' authA =
     (Ok ''010000'',
      \<lparr>au_users = [''a@b.c'' \<mapsto> \<lparr>au_id = ''user_1'', au_name = ''A'', au_email = ''a@b.c'',
                                   au_rooms = [''000000'', ''010000'']\<rparr>],
       roomOwners = [''000000'' \<mapsto> ''user_1'', ''010000'' \<mapsto> ''user_1'']\<rparr>) \<and>
   roomOwners authA ''010000'' = None \<and>
   authCreateRoom (\<lambda>i. (0, 0, 0)) ''a@b.c'' ''user_1'' authA =
     (Status 500 ''Failed to generate unique room code'', authA)"
proof -
  note t = room_creation_rejects_live_codes
  have 1: "rooms storeAB (orElse (Some ''AB12CD'') (generateRoomCode (0, 0, 0))) \<noteq> None"
    by (simp add: example_defs orElse_def)
  from t [where s = storeAB and roomCode = "Some ''AB12CD''" and rnd = "(0, 0, 0)"]
  have "rooms storeAB (orElse (Some ''AB12CD'') (generateRoomCode (0, 0, 0))) \<noteq> None \<longrightarrow>
      postRoomsCreate (Some ''AB12CD'') None None ''host-2'' (0, 0, 0) (0, 0, 0) 80 storeAB =
        (Status 400 ''Room code already exists'', storeAB)"
    by (rule conjunct1)
  with 1 have a: "postRoomsCreate (Some ''AB12CD'') None None ''host-2'' (0, 0, 0) (0, 0, 0) 80 storeAB =
     (Status 400 ''Room code already exists'', storeAB)"
    by (rule_tac mp)
  have g: "generateRoomCode (171, 18, 205) = ''AB12CD''"
    by (simp add: hexByte_def hexDigit_def)
  have 2: "rooms storeAB (orElse None (generateRoomCode (171, 18, 205))) \<noteq> None"
    by (simp add: example_defs orElse_def hexByte_def hexDigit_def)
  from t [where s = storeAB and roomCode = None and rnd = "(171, 18, 205)"]
  have "rooms storeAB (orElse None (generateRoomCode (171, 18, 205))) \<noteq> None \<longrightarrow>
      postRoomsCreate None None None ''host-2'' (171, 18, 205) (0, 0, 0) 80 storeAB =
        (Status 400 ''Room code already exists'', storeAB)"
    by (rule conjunct1)
  with 2 have b: "postRoomsCreate None None None ''host-2'' (171, 18, 205) (0, 0, 0) 80 storeAB =
     (Status 400 ''Room code already exists'', storeAB)"
    by (rule_tac mp)
  have 3: "rooms storeAB (orElse None (generateRoomCode (239, 0, 1))) = None"
    by (simp add: example_defs orElse_def hexByte_def hexDigit_def)
  from t [where s = storeAB and roomCode = None and rnd = "(239, 0, 1)" and hostType = None
            and hostName = None and uuid = "''host-2''" and rnd' = "(0, 0, 0)" and now = 80]
  have "rooms storeAB (orElse None (generateRoomCode (239, 0, 1))) = None \<longrightarrow>
        (\<exists>room. postRoomsCreate None None None ''host-2'' (239, 0, 1) (0, 0, 0) 80 storeAB =
                  (Ok room, storeAB\<lparr>nextOid := Suc (nextOid storeAB),
                                    rooms := (rooms storeAB)
                                      (orElse None (generateRoomCode (239, 0, 1)) \<mapsto> room)\<rparr>) \<and>
                r_code room = orElse None (generateRoomCode (239, 0, 1)) \<and> r_users room = [])"
    by (rule conjunct2 [THEN conjunct1])
  with 3 obtain room where
    "postRoomsCreate None None None ''host-2'' (239, 0, 1) (0, 0, 0) 80 storeAB =
       (Ok room, storeAB\<lparr>nextOid := Suc (nextOid storeAB),
                         rooms := (rooms storeAB)
                           (orElse None (generateRoomCode (239, 0, 1)) \<mapsto> room)\<rparr>)"
    by blast
  then have c: "fst (postRoomsCreate None None None ''host-2'' (239, 0, 1) (0, 0, 0) 80 storeAB) =
     Ok \<lparr>r_code = ''EF0001'',
         r_host = \<lparr>h_oid = 1, h_id = ''host-2'', h_name = ''Desktop App'', h_type = ''desktop'',
                   h_joinedAt = 80, h_ws = None\<rparr>,
         r_users = [], r_createdAt = 80, r_lastActivity = 80,
         r_settings = r_settings roomAB,
         r_state = [(''timer'', JNull), (''message'', JNull), (''isConnected'', JBool False)]\<rparr>"
    by (simp add: postRoomsCreate_def createRoom_def example_defs orElse_def hexByte_def
        hexDigit_def MAX_USERS_PER_ROOM_def Let_def)
  have loop: "codeLoop (\<lambda>i. (i, 0, 0)) (roomOwners authA) 0 = (''010000'', 2)"
    by code_simp
  then have d: "authCreateRoom (\<lambda>i. (i, 0, 0)) ''a@b.c'' ''user_1'' authA =
     (Ok ''010000'',
      \<lparr>au_users = [''a@b.c'' \<mapsto> \<lparr>au_id = ''user_1'', au_name = ''A'', au_email = ''a@b.c'',
                                   au_rooms = [''000000'', ''010000'']\<rparr>],
       roomOwners = [''000000'' \<mapsto> ''user_1'', ''010000'' \<mapsto> ''user_1'']\<rparr>)"
    by (simp add: authCreateRoom_def authA_def)
  from t [where a = authA and draws = "\<lambda>i. (i, 0, 0)" and email = "''a@b.c''"
            and userId = "''user_1''" and code = "''010000''"
            and a' = "\<lparr>au_users = [''a@b.c'' \<mapsto> \<lparr>au_id = ''user_1'', au_name = ''A'',
                                                   au_email = ''a@b.c'',
                                                   au_rooms = [''000000'', ''010000'']\<rparr>],
                       roomOwners = [''000000'' \<mapsto> ''user_1'', ''010000'' \<mapsto> ''user_1'']\<rparr>"]
       d
  have f: "roomOwners authA ''010000'' = None"
    by blast
  have 5: "au_users authA ''a@b.c'' \<noteq> None \<and>
           (\<forall>i<10::nat. roomOwners authA (generateRoomCode (0, 0, 0)) \<noteq> None)"
    by (simp add: authA_def hexByte_def hexDigit_def)
  from t [where a = authA and draws = "\<lambda>i. (0, 0, 0)" and email = "''a@b.c''"
            and userId = "''user_1''"]
  have "au_users authA ''a@b.c'' \<noteq> None \<and>
        (\<forall>i<10::nat. roomOwners authA (generateRoomCode (0, 0, 0)) \<noteq> None) \<longrightarrow>
        authCreateRoom (\<lambda>i. (0, 0, 0)) ''a@b.c'' ''user_1'' authA =
          (Status 500 ''Failed to generate unique room code'', authA)"
    by (rule conjunct2 [THEN conjunct2, THEN conjunct2, THEN conjunct2])
  with 5 have e: "authCreateRoom (\<lambda>i. (0, 0, 0)) ''a@b.c'' ''user_1'' authA =
     (Status 500 ''Failed to generate unique room code'', authA)"
    by (rule_tac mp)
  have live: "rooms storeAB ''AB12CD'' \<noteq> None"
    by (simp add: example_defs)
  have fresh: "rooms storeAB (generateRoomCode (239, 0, 1)) = None"
    using 3 by (simp add: orElse_def)
  from live a g b fresh c d f e show ?thesis by (intro conjI)
qed

section \<open>One-time tokens\<close>

lemma spent_validate:
  "spent token ts \<Longrightarrow> fst (validateAuthToken token now ts) = False"
  by (auto simp: spent_def validateAuthToken_def split: option.splits)

lemma validate_True_spent:
  "validateAuthToken token now ts = (True, ts') \<Longrightarrow> spent token ts'"
  by (auto simp: spent_def validateAuthToken_def split: option.splits if_splits)

lemma spent_after_validate:
  "spent token ts \<Longrightarrow> spent token (snd (validateAuthToken t now ts))"
  by (auto simp: spent_def validateAuthToken_def split: option.splits)

lemma spent_after_fire: "spent token ts \<Longrightarrow> spent token (fireTimer t now ts)"
  by (auto simp: spent_def fireTimer_def split: option.splits)

lemma spent_after_generate:
  "spent token ts \<Longrightarrow> t \<noteq> token \<Longrightarrow> spent token (snd (generateAuthToken t now ts))"
  by (auto simp: spent_def generateAuthToken_def split: option.splits)

lemma expiresBy_validate:
  "expiresBy token e ts \<Longrightarrow> e < now \<Longrightarrow> fst (validateAuthToken token now ts) = False"
  by (auto simp: expiresBy_def validateAuthToken_def split: option.splits)

lemma expiresBy_after_validate:
  "expiresBy token e ts \<Longrightarrow> expiresBy token e (snd (validateAuthToken t now ts))"
  by (auto simp: expiresBy_def validateAuthToken_def split: option.splits)

lemma expiresBy_after_fire: "expiresBy token e ts \<Longrightarrow> expiresBy token e (fireTimer t now ts)"
  by (auto simp: expiresBy_def fireTimer_def split: option.splits)

lemma expiresBy_after_generate:
  "expiresBy token e ts \<Longrightarrow> t \<noteq> token \<Longrightarrow> expiresBy token e (snd (generateAuthToken t now ts))"
  by (auto simp: expiresBy_def generateAuthToken_def split: option.splits)

lemma expiresBy_generate:
  "expiresBy token (now + REMOTE_AUTH_TIMEOUT) (snd (generateAuthToken token now ts))"
  by (simp add: expiresBy_def generateAuthToken_def)

lemma authRun_Validate:
  "authRun (Validate t now # es) ts =
     ((t, fst (validateAuthToken t now ts)) #
        fst (authRun es (snd (validateAuthToken t now ts))),
      snd (authRun es (snd (validateAuthToken t now ts))))"
  by (simp split: prod.splits)

lemma authRun_spent:
  "spent token ts \<Longrightarrow> \<forall>n. Generate token n \<notin> set es \<Longrightarrow>
     spent token (snd (authRun es ts)) \<and> (token, True) \<notin> set (fst (authRun es ts))"
proof (induction es arbitrary: ts)
  case Nil
  then show ?case by simp
next
  case (Cons ev es)
  from Cons.prems have g: "\<forall>n. Generate token n \<notin> set es" by simp
  show ?case
  proof (cases ev)
    case (Generate t now)
    with Cons.prems have "t \<noteq> token" by auto
    with Cons.prems(1) have "spent token (snd (generateAuthToken t now ts))"
      by (rule spent_after_generate)
    from Cons.IH[OF this g] Generate show ?thesis by simp
  next
    case (Validate t now)
    obtain b ts' where v: "validateAuthToken t now ts = (b, ts')"
      by (cases "validateAuthToken t now ts")
    from spent_after_validate[OF Cons.prems(1), of t now] v have s': "spent token ts'"
      by simp
    have "(t, b) \<noteq> (token, True)"
      using v spent_validate[OF Cons.prems(1), of now] by auto
    with Cons.IH[OF s' g] Validate v show ?thesis
      by (simp only: authRun_Validate) auto
  next
    case (Fire t now)
    from Cons.IH[OF spent_after_fire[OF Cons.prems(1)] g] Fire show ?thesis by simp
  qed
qed

lemma authRun_expiresBy:
  "expiresBy token e ts \<Longrightarrow> \<forall>n. Generate token n \<notin> set es \<Longrightarrow>
     expiresBy token e (snd (authRun es ts))"
proof (induction es arbitrary: ts)
  case Nil
  then show ?case by simp
next
  case (Cons ev es)
  from Cons.prems have g: "\<forall>n. Generate token n \<notin> set es" by simp
  show ?case
  proof (cases ev)
    case (Generate t now)
    with Cons.prems have "t \<noteq> token" by auto
    with Cons.prems(1) have "expiresBy token e (snd (generateAuthToken t now ts))"
      by (rule expiresBy_after_generate)
    from Cons.IH[OF this g] Generate show ?thesis by simp
  next
    case (Validate t now)
    obtain b ts' where v: "validateAuthToken t now ts = (b, ts')"
      by (cases "validateAuthToken t now ts")
    from expiresBy_after_validate[OF Cons.prems(1), of t now] v have "expiresBy token e ts'"
      by simp
    from Cons.IH[OF this g] Validate v show ?thesis
      by (simp only: authRun_Validate) simp
  next
    case (Fire t now)
    from Cons.IH[OF expiresBy_after_fire[OF Cons.prems(1)] g] Fire show ?thesis by simp
  qed
qed

lemma authRun_at_most_once:
  "\<forall>n. Generate token n \<notin> set es \<Longrightarrow>
     length (filter (\<lambda>a. a = (token, True)) (fst (authRun es ts))) \<le> 1"
proof (induction es arbitrary: ts)
  case Nil
  then show ?case by simp
next
  case (Cons ev es)
  from Cons.prems have g: "\<forall>n. Generate token n \<notin> set es" by simp
  show ?case
  proof (cases ev)
    case (Generate t now)
    with Cons.IH[OF g] show ?thesis by simp
  next
    case (Validate t now)
    obtain b ts' where v: "validateAuthToken t now ts = (b, ts')"
      by (cases "validateAuthToken t now ts")
    show ?thesis
    proof (cases "(t, b) = (token, True)")
      case True
      with v have "spent token ts'" by (simp add: validate_True_spent)
      from authRun_spent[OF this g]
      have "filter (\<lambda>a. a = (token, True)) (fst (authRun es ts')) = []"
        by (auto simp: filter_empty_conv)
      with v True Validate show ?thesis by (simp only: authRun_Validate) simp
    next
      case False
      with Cons.IH[OF g, of ts'] v Validate show ?thesis
        by (simp only: authRun_Validate) auto
    qed
  next
    case (Fire t now)
    with Cons.IH[OF g] show ?thesis by simp
  qed
qed

text \<open>
  Claim C8. Take any run of the token store in which the token is not issued again
  (\<^verbatim>\<open>generateAuthToken\<close> draws 32 random bytes; the run may issue, validate and expire other
  tokens, and validate this one at any times). Then \<^verbatim>\<open>validateAuthToken\<close> answers \<^verbatim>\<open>true\<close> for
  the token at most once in the run; after a call that answered \<^verbatim>\<open>true\<close> every later call
  answers \<^verbatim>\<open>false\<close>; and every call made later than five minutes (300000 ms) after the
  token was issued answers \<^verbatim>\<open>false\<close>.
\<close>

theorem token_validates_at_most_once:
  assumes "\<forall>n. Generate token n \<notin> set es"
  shows "length (filter (\<lambda>a. a = (token, True)) (fst (authRun es ts))) \<le> 1 \<and>
         (validateAuthToken token now ts = (True, ts') \<longrightarrow>
            fst (validateAuthToken token later (snd (authRun es ts'))) = False) \<and>
         (issued + REMOTE_AUTH_TIMEOUT < later \<longrightarrow>
            fst (validateAuthToken token later
                   (snd (authRun es (snd (generateAuthToken token issued ts))))) = False) \<and>
         REMOTE_AUTH_TIMEOUT = 300000"
proof (intro conjI impI)
  show "length (filter (\<lambda>a. a = (token, True)) (fst (authRun es ts))) \<le> 1"
    using assms by (rule authRun_at_most_once)
next
  assume "validateAuthToken token now ts = (True, ts')"
  then have "spent token ts'" by (rule validate_True_spent)
  from authRun_spent[OF this assms] show
    "fst (validateAuthToken token later (snd (authRun es ts'))) = False"
    by (simp add: spent_validate)
next
  assume late: "issued + REMOTE_AUTH_TIMEOUT < later"
  from authRun_expiresBy[OF expiresBy_generate assms]
  have "expiresBy token (issued + REMOTE_AUTH_TIMEOUT)
          (snd (authRun es (snd (generateAuthToken token issued ts))))" .
  from expiresBy_validate[OF this late] show
    "fst (validateAuthToken token later
            (snd (authRun es (snd (generateAuthToken token issued ts))))) = False" .
next
  show "REMOTE_AUTH_TIMEOUT = 300000" by (simp add: REMOTE_AUTH_TIMEOUT_def)
qed

theorem token_validates_at_most_once_witness:
  "fst (authRun [Validate ''t1'' 2000, Validate ''t1'' 3000, Generate ''t2'' 4000,
                 Validate ''t2'' 5000, Fire ''t1'' 301000, Validate ''t1'' 301500]
          (snd (generateAuthToken ''t1'' 1000 noTokens))) =
     [(''t1'', True), (''t1'', False), (''t2'', True), (''t1'', False)] \<and>
   validateAuthToken ''t1'' 2000 (snd (generateAuthToken ''t1'' 1000 noTokens)) =
     (True, \<lparr>authTokens = [''t1'' \<mapsto> \<lparr>expires = 301000, used = True\<rparr>],
             timers = [(301000, ''t1'')]\<rparr>) \<and>
   fst (validateAuthToken ''t1'' 3000
          \<lparr>authTokens = [''t1'' \<mapsto> \<lparr>expires = 301000, used = True\<rparr>],
           timers = [(301000, ''t1'')]\<rparr>) = False \<and>
   fst (validateAuthToken ''t1'' 301000 (snd (generateAuthToken ''t1'' 1000 noTokens))) = True \<and>
   fst (validateAuthToken ''t1'' 301001 (snd (generateAuthToken ''t1'' 1000 noTokens))) = False"
proof -
  note t = token_validates_at_most_once
  have g: "\<forall>n. Generate ''t1'' n \<notin>
             set [Validate ''t1'' 2000, Validate ''t1'' 3000, Generate ''t2'' 4000,
                  Validate ''t2'' 5000, Fire ''t1'' 301000, Validate ''t1'' 301500]"
    by simp
  have n: "\<forall>n. Generate ''t1'' n \<notin> set []"
    by simp
  from t [OF g, of "snd (generateAuthToken ''t1'' 1000 noTokens)"]
  have "length (filter (\<lambda>a. a = (''t1'', True))
          (fst (authRun [Validate ''t1'' 2000, Validate ''t1'' 3000, Generate ''t2'' 4000,
                         Validate ''t2'' 5000, Fire ''t1'' 301000, Validate ''t1'' 301500]
                  (snd (generateAuthToken ''t1'' 1000 noTokens))))) \<le> 1"
    by (rule conjunct1)
  then have run:
    "fst (authRun [Validate ''t1'' 2000, Validate ''t1'' 3000, Generate ''t2'' 4000,
                   Validate ''t2'' 5000, Fire ''t1'' 301000, Validate ''t1'' 301500]
            (snd (generateAuthToken ''t1'' 1000 noTokens))) =
       [(''t1'', True), (''t1'', False), (''t2'', True), (''t1'', False)]"
    by (simp add: noTokens_def generateAuthToken_def validateAuthToken_def fireTimer_def
        REMOTE_AUTH_TIMEOUT_def)
  have v: "validateAuthToken ''t1'' 2000 (snd (generateAuthToken ''t1'' 1000 noTokens)) =
     (True, \<lparr>authTokens = [''t1'' \<mapsto> \<lparr>expires = 301000, used = True\<rparr>],
             timers = [(301000, ''t1'')]\<rparr>)"
    by (simp add: noTokens_def generateAuthToken_def validateAuthToken_def
        REMOTE_AUTH_TIMEOUT_def)
  from t [OF n, of "snd (generateAuthToken ''t1'' 1000 noTokens)" 2000
            "\<lparr>authTokens = [''t1'' \<mapsto> \<lparr>expires = 301000, used = True\<rparr>],
              timers = [(301000, ''t1'')]\<rparr>" 3000 1000]
  have "validateAuthToken ''t1'' 2000 (snd (generateAuthToken ''t1'' 1000 noTokens)) =
          (True, \<lparr>authTokens = [''t1'' \<mapsto> \<lparr>expires = 301000, used = True\<rparr>],
                  timers = [(301000, ''t1'')]\<rparr>) \<longrightarrow>
        fst (validateAuthToken ''t1'' 3000
               (snd (authRun []
                  \<lparr>authTokens = [''t1'' \<mapsto> \<lparr>expires = 301000, used = True\<rparr>],
                   timers = [(301000, ''t1'')]\<rparr>))) = False"
    by (rule conjunct2 [THEN conjunct1])
  with v have second: "fst (validateAuthToken ''t1'' 3000
          \<lparr>authTokens = [''t1'' \<mapsto> \<lparr>expires = 301000, used = True\<rparr>],
           timers = [(301000, ''t1'')]\<rparr>) = False"
    by simp
  have l: "1000 + REMOTE_AUTH_TIMEOUT < 301001"
    by (simp add: REMOTE_AUTH_TIMEOUT_def)
  from t [OF n, of noTokens 0 noTokens 301001 1000]
  have "1000 + REMOTE_AUTH_TIMEOUT < 301001 \<longrightarrow>
        fst (validateAuthToken ''t1'' 301001
               (snd (authRun [] (snd (generateAuthToken ''t1'' 1000 noTokens))))) = False"
    by (rule conjunct2 [THEN conjunct2, THEN conjunct1])
  with l have late: "fst (validateAuthToken ''t1'' 301001
                     (snd (generateAuthToken ''t1'' 1000 noTokens))) = False"
    by simp
  have edge: "fst (validateAuthToken ''t1'' 301000
                     (snd (generateAuthToken ''t1'' 1000 noTokens))) = True"
    by (simp add: noTokens_def generateAuthToken_def validateAuthToken_def
        REMOTE_AUTH_TIMEOUT_def)
  from run v second edge late show ?thesis by (intro conjI)
qed

end
